theory Spec2Isabelle
  imports Main "HOL-Library.AList" "HOL-Library.Sublist" "HOL-Library.Monad_Syntax"
    "HOL-Library.Char_ord" "HOL-Library.List_Lexorder"
begin

section \<open>Text helpers\<close>

text \<open>
  Generated code is text. A template literal of the TypeScript source becomes the
  concatenation of its pieces; a line break inside a template is \<open>nl\<close>,
  \<open>os.EOL\<close> is \<open>EOL\<close> (the POSIX value) and \<open>sq\<close> is the single quote.
\<close>

definition nl :: string where
  "nl = [CHR 0x0A]"

definition EOL :: string where
  "EOL = [CHR 0x0A]"

definition sq :: string where
  "sq = [CHR 0x27]"

text \<open>\<open>Array.prototype.join\<close>.\<close>

fun join :: "string \<Rightarrow> string list \<Rightarrow> string" where
  "join sep [] = []"
| "join sep [x] = x"
| "join sep (x # y # ys) = x @ sep @ join sep (y # ys)"

text \<open>
  \<open>String.prototype.replace\<close> with a string pattern: the first occurrence is replaced,
  a text without the pattern is returned as it is. (The replacement texts of the
  generators contain no \<open>$\<close>, so the special replacement patterns never apply.)
\<close>

fun replace :: "string \<Rightarrow> string \<Rightarrow> string \<Rightarrow> string" where
  "replace pat rep [] = (if pat = [] then rep else [])"
| "replace pat rep (c # cs) =
     (if prefix pat (c # cs) then rep @ drop (length pat) (c # cs)
      else c # replace pat rep cs)"

text \<open>
  Modelled from the spec: \<open>upperFirst\<close> of \<open>utils\<close>, which is not among the sources.
  The spec shows its effect in the declared name \<open>Owner_InputName\<close>; following its name,
  the first character is upper-cased and the rest is kept. Schema names are ASCII, so
  upper-casing is the table of the 26 letters.
\<close>

definition toUpperCase :: "char \<Rightarrow> char" where
  "toUpperCase c =
     (case map_of (zip ''abcdefghijklmnopqrstuvwxyz'' ''ABCDEFGHIJKLMNOPQRSTUVWXYZ'') c of
        Some C \<Rightarrow> C
      | None \<Rightarrow> c)"

fun upperFirst :: "string \<Rightarrow> string" where
  "upperFirst [] = []"
| "upperFirst (c # cs) = toUpperCase c # cs"

text \<open>
  Modelled from the spec: \<open>flatten\<close> of \<open>utils\<close>, which is not among the sources. It is
  used to merge the implementer lists of the interfaces of a type: the concatenation of
  its two arrays.
\<close>

definition flatten :: "'a list \<Rightarrow> 'a list \<Rightarrow> 'a list" where
  "flatten a b = a @ b"

section \<open>Data model\<close>

text \<open>
  The schema type graph of \<open>source-helper\<close>, with the properties the generators read.
  A JavaScript object used as a dictionary is an association list in insertion order
  (\<open>Object.keys\<close> and \<open>for ... in\<close> enumerate string keys in that order; schema names
  never look like array indices); \<open>{...obj, [k]: v}\<close> is \<open>AList.update k v obj\<close> and
  \<open>obj[k]\<close> is \<open>map_of obj k\<close>, \<open>None\<close> standing for \<open>undefined\<close>.
  Reading a property of \<open>undefined\<close> throws a \<open>TypeError\<close>: a function that can throw
  returns an \<open>option\<close>, \<open>None\<close> being the throw.

  A key that \<open>Object.prototype\<close> defines, such as \<open>constructor\<close> or \<open>toString\<close>, is
  found in every object literal, stored or not: \<open>obj[k]\<close> is then a function (or the
  prototype itself), which is truthy and is neither an array nor a type of the schema.
  Where the source reads the members of what it has looked up, both \<open>undefined\<close> and
  an inherited value throw, and \<open>map_of\<close> with \<open>None\<close> for the throw covers them;
  where the source only tests the value, as in the guard of \<open>renderInputTypeInterfaces\<close>,
  the three outcomes are told apart by \<open>property\<close>.
\<close>

definition objectPrototypeKeys :: "string list" where
  "objectPrototypeKeys =
     [''constructor'', ''toString'', ''toLocaleString'', ''valueOf'', ''hasOwnProperty'',
      ''isPrototypeOf'', ''propertyIsEnumerable'', ''__proto__'', ''__defineGetter__'',
      ''__defineSetter__'', ''__lookupGetter__'', ''__lookupSetter__'']"

datatype 'a Property = Own 'a | Inherited | Undefined

definition property :: "(string \<times> 'a) list \<Rightarrow> string \<Rightarrow> 'a Property" where
  "property obj k =
     (case map_of obj k of
        Some v \<Rightarrow> Own v
      | None \<Rightarrow> if k \<in> set objectPrototypeKeys then Inherited else Undefined)"

record GraphQLType =
  t_name :: string
  isScalar :: bool
  isEnum :: bool
  isInput :: bool
  isObject :: bool
  isInterface :: bool
  isUnion :: bool

record GraphQLTypeArgument =
  a_name :: string
  a_type :: GraphQLType

record GraphQLTypeField =
  f_name :: string
  f_type :: GraphQLType
  f_arguments :: "GraphQLTypeArgument list"

record GraphQLTypeObject =
  o_name :: string
  o_type :: GraphQLType
  o_fields :: "GraphQLTypeField list"
  o_interfaces :: "string list option"

record GraphQLInterfaceObject =
  i_name :: string
  i_type :: GraphQLType
  i_fields :: "GraphQLTypeField list"
  i_types :: "GraphQLType list"

record GraphQLUnionObject =
  u_name :: string
  u_type :: GraphQLType
  u_types :: "GraphQLType list"

text \<open>
  A model definition of \<open>introspection/types\<close>: its kind tag, the name of the target
  type, the enum mark of a type alias and the names of the properties of the model.
\<close>

record ModelDefinition =
  d_kind :: string
  d_name :: string
  d_isEnum :: bool
  d_properties :: "string list"

record Model =
  m_definition :: ModelDefinition
  m_importPath :: string

record ContextDefinition =
  contextPath :: string
  contextName :: string

type_synonym ModelMap = "(string \<times> Model) list"
type_synonym InputTypesMap = "(string \<times> GraphQLTypeObject) list"
type_synonym TypeToInputTypeAssociation = "(string \<times> string list) list"
type_synonym InterfacesMap = "(string \<times> GraphQLType list) list"
type_synonym UnionsMap = "(string \<times> GraphQLType list) list"

record GenerateArgs =
  g_types :: "GraphQLTypeObject list"
  g_interfaces :: "GraphQLInterfaceObject list"
  g_unions :: "GraphQLUnionObject list"
  g_modelMap :: ModelMap
  g_context :: "ContextDefinition option"
  g_defaultResolversEnabled :: bool

text \<open>
  The printing helpers of \<open>./common\<close> (and \<open>renderTypeResolveTypeResolver\<close>, which the
  Flow generator imports from a later TypeScript generator) are not among the sources
  and no theorem below depends on what they print: they are parameters, passed to every
  generator function as the record \<open>cm\<close>. The last argument of \<open>printFieldLikeType\<close>
  is the \<open>isReturn\<close> option. \<open>defaultEmptyType\<close> is the default value of the third
  parameter of \<open>getModelName\<close>, declared in \<open>./common\<close> as well.
\<close>

record Common =
  getContextName :: "ContextDefinition option \<Rightarrow> string"
  printFieldLikeType ::
    "GraphQLTypeField \<Rightarrow> ModelMap \<Rightarrow> InterfacesMap \<Rightarrow> UnionsMap \<Rightarrow> bool \<Rightarrow> string"
  resolverReturnType :: "string \<Rightarrow> string"
  renderEnums :: "GenerateArgs \<Rightarrow> string"
  renderTypeResolveTypeResolver :: "GraphQLUnionObject \<Rightarrow> GenerateArgs \<Rightarrow> string"
  defaultEmptyType :: string
  createInterfacesMap :: "GraphQLInterfaceObject list \<Rightarrow> InterfacesMap"
  createUnionsMap :: "GraphQLUnionObject list \<Rightarrow> UnionsMap"

text \<open>An argument passed where a field is expected (\<open>arg as GraphQLTypeField\<close>).\<close>

definition argAsField :: "GraphQLTypeArgument \<Rightarrow> GraphQLTypeField" where
  "argAsField arg = \<lparr>f_name = a_name arg, f_type = a_type arg, f_arguments = []\<rparr>"

text \<open>
  An interface passed where an object type is expected (the TypeScript generator renders
  the \<open>InterfaceType\<close> of an interface with the functions written for object types);
  an interface has no \<open>interfaces\<close> property.
\<close>

definition interfaceAsObject :: "GraphQLInterfaceObject \<Rightarrow> GraphQLTypeObject" where
  "interfaceAsObject i =
     \<lparr>o_name = i_name i, o_type = i_type i, o_fields = i_fields i, o_interfaces = None\<rparr>"

section \<open>Helpers of common, modelled from the spec\<close>

text \<open>
  Modelled from the spec: \<open>getModelName\<close> of \<open>./common\<close>, which is not among the
  sources (spec 4.1, \<open>resolve(typeRef, modelMap, fallbackWhenUnbound)\<close>): a type with a
  model entry resolves to the bound target name verbatim, a type without one to the
  fallback given by the caller.
\<close>

definition getModelName :: "GraphQLType \<Rightarrow> ModelMap \<Rightarrow> string \<Rightarrow> string" where
  "getModelName type mm emptyType =
     (case map_of mm (t_name type) of
        None \<Rightarrow> emptyType
      | Some model \<Rightarrow> d_name (m_definition model))"

text \<open>
  Modelled from the spec: \<open>getDistinctInputTypes\<close> of \<open>./common\<close>, which is not among
  the sources (spec 4.4, \<open>distinctInputTypes(objectType, associations, registry)\<close>): the
  input types that the object type must expose, deduplicated, in the order in which they
  are first seen. These are the input types named in the association entry of the type,
  one per argument, and, looked up in the registry, the input types that the fields of an
  input type so reached take in turn. Each argument is followed depth first; input types
  may refer to each other, so an input type that is already on the path is listed and not
  entered again. The association entry of the type is read as a list without a check: a
  missing entry throws, and so does the value inherited from \<open>Object.prototype\<close>; a name
  that the registry does not hold throws as well.
\<close>

fun firstSeen :: "'a list \<Rightarrow> 'a list" where
  "firstSeen [] = []"
| "firstSeen (x # xs) = x # firstSeen (filter (\<lambda>y. y \<noteq> x) xs)"

definition inputFieldTypeNames :: "GraphQLTypeObject \<Rightarrow> string list" where
  "inputFieldTypeNames type =
     map (\<lambda>field. t_name (f_type field))
       (filter (\<lambda>field. isInput (f_type field)) (o_fields type))"

function deepResolveInputTypes ::
  "InputTypesMap \<Rightarrow> string list \<Rightarrow> string \<Rightarrow> string list option" where
  "deepResolveInputTypes inputTypesMap seen typeName =
     (case map_of inputTypesMap typeName of
        None \<Rightarrow> None
      | Some type \<Rightarrow>
          if typeName \<in> set seen then Some [typeName]
          else map_option (\<lambda>childTypes. typeName # concat childTypes)
                 (those (map (deepResolveInputTypes inputTypesMap (typeName # seen))
                           (inputFieldTypeNames type))))"
  by pat_completeness auto

termination
proof (relation "measure (\<lambda>(inputTypesMap, seen, typeName).
                            card (fst ` set inputTypesMap - set seen))")
  show "wf (measure (\<lambda>(inputTypesMap, seen, typeName).
                       card (fst ` set inputTypesMap - set seen)))"
    by simp
next
  fix inputTypesMap :: InputTypesMap and seen typeName type child
  assume found: "map_of inputTypesMap typeName = Some type"
    and fresh: "typeName \<notin> set seen"
  from found have "(typeName, type) \<in> set inputTypesMap"
    by (rule map_of_SomeD)
  then have "typeName \<in> fst ` set inputTypesMap"
    by force
  with fresh have "fst ` set inputTypesMap - set (typeName # seen)
      \<subset> fst ` set inputTypesMap - set seen"
    by auto
  then have "card (fst ` set inputTypesMap - set (typeName # seen))
      < card (fst ` set inputTypesMap - set seen)"
    by (intro psubset_card_mono) auto
  then show "((inputTypesMap, typeName # seen, child), (inputTypesMap, seen, typeName))
      \<in> measure (\<lambda>(inputTypesMap, seen, typeName).
                    card (fst ` set inputTypesMap - set seen))"
    by simp
qed

declare deepResolveInputTypes.simps [simp del]

definition getDistinctInputTypes ::
  "GraphQLTypeObject \<Rightarrow> TypeToInputTypeAssociation \<Rightarrow> InputTypesMap \<Rightarrow> string list option" where
  "getDistinctInputTypes type typeToInputTypeAssociation inputTypesMap =
     (case property typeToInputTypeAssociation (o_name type) of
        Own typeNames \<Rightarrow>
          map_option (\<lambda>resolved. firstSeen (concat resolved))
            (those (map (deepResolveInputTypes inputTypesMap []) typeNames))
      | Inherited \<Rightarrow> None
      | Undefined \<Rightarrow> None)"

text \<open>
  Modelled from the spec: \<open>groupModelsNameByImportPath\<close> of \<open>./common\<close>, which is not
  among the sources (spec 4.1: a deduplicated, one-entry-per-path import list grouped by
  path, sorted for determinism): one entry per import path, in sorted order, holding the
  target names of the models of that path, each once.
\<close>

definition groupModelsNameByImportPath :: "Model list \<Rightarrow> (string \<times> string list) list" where
  "groupModelsNameByImportPath models =
     map (\<lambda>path.
            (path,
             firstSeen (map (\<lambda>m. d_name (m_definition m))
                          (filter (\<lambda>m. m_importPath m = path) models))))
         (sort (remdups (map m_importPath models)))"

text \<open>
  Modelled from the spec: \<open>renderDefaultResolvers\<close> of \<open>./common\<close>, which is not among
  the sources (spec 4.3): the bundle declared under the given variable name binds a
  pass-through resolver for each field of the object type that has zero arguments and
  whose name is a property of the model bound to the type; no other field is bound.
  A type without a model gets the empty bundle (the scaffolded \<open>Mutation\<close> resolvers
  spread \<open>MutationResolvers.defaultResolvers\<close>). The spec does not fix the text of a
  binding; the one below is the plain pass-through.
\<close>

definition defaultResolverFields :: "GraphQLTypeObject \<Rightarrow> GenerateArgs \<Rightarrow> string list" where
  "defaultResolverFields type args =
     (case map_of (g_modelMap args) (o_name type) of
        None \<Rightarrow> []
      | Some model \<Rightarrow>
          map f_name
            (filter (\<lambda>field. f_arguments field = []
                        \<and> f_name field \<in> set (d_properties (m_definition model)))
               (o_fields type)))"

definition renderDefaultResolver :: "string \<Rightarrow> string" where
  "renderDefaultResolver fieldName =
     fieldName @ '': (parent) => parent.'' @ fieldName @ '',''"

definition renderDefaultResolvers :: "GraphQLTypeObject \<Rightarrow> GenerateArgs \<Rightarrow> string \<Rightarrow> string" where
  "renderDefaultResolvers type args variableName =
     ''export const '' @ variableName @ '' = {'' @ nl
     @ join EOL (map renderDefaultResolver (defaultResolverFields type args)) @ nl
     @ ''}''"

section \<open>The indices built by generate\<close>

text \<open>
  Both generators start \<open>generate\<close> with the same two reductions over \<open>args.types\<close>.
  The TypeScript generator builds the interface and union registries in the same
  manner; the Flow generator calls \<open>createInterfacesMap\<close> and \<open>createUnionsMap\<close> of
  \<open>./common\<close> for them.
\<close>

definition build_inputTypesMap :: "GraphQLTypeObject list \<Rightarrow> InputTypesMap" where
  "build_inputTypesMap tys =
     foldl (\<lambda>inputTypes type. AList.update (o_name type) type inputTypes) []
       (filter (\<lambda>type. isInput (o_type type)) tys)"

definition inputArgTypeNames :: "GraphQLTypeObject \<Rightarrow> string list" where
  "inputArgTypeNames type =
     concat (map (\<lambda>field. map (\<lambda>arg. t_name (a_type arg))
                            (filter (\<lambda>arg. isInput (a_type arg)) (f_arguments field)))
               (o_fields type))"

definition build_typeToInputTypeAssociation ::
  "GraphQLTypeObject list \<Rightarrow> TypeToInputTypeAssociation" where
  "build_typeToInputTypeAssociation tys =
     foldl (\<lambda>acc type. AList.update (o_name type) (inputArgTypeNames type) acc) []
       (filter (\<lambda>type. isObject (o_type type)
                  \<and> length (filter (\<lambda>field.
                        length (filter (\<lambda>arg. isInput (a_type arg)) (f_arguments field)) > 0)
                      (o_fields type)) > 0)
          tys)"

definition build_interfacesMap :: "GraphQLInterfaceObject list \<Rightarrow> InterfacesMap" where
  "build_interfacesMap ints =
     foldl (\<lambda>acc int. AList.update (i_name int) (i_types int) acc) [] ints"

definition build_unionsMap :: "GraphQLUnionObject list \<Rightarrow> UnionsMap" where
  "build_unionsMap uns =
     foldl (\<lambda>acc int. AList.update (u_name int) (u_types int) acc) [] uns"

section \<open>The TypeScript generator\<close>

definition ts_renderContext :: "Common \<Rightarrow> ContextDefinition option \<Rightarrow> string" where
  "ts_renderContext cm ctx =
     (case ctx of
        Some c \<Rightarrow>
          ''import { '' @ getContextName cm ctx @ '' } from '' @ sq @ contextPath c @ sq
      | None \<Rightarrow> ''type '' @ getContextName cm ctx @ '' = any'')"

text \<open>
  \<open>renderHeader\<close> filters and maps the keys of the model map, reading the entry of each
  key; an object holds one entry per key, so this walks the entries themselves.
\<close>

definition ts_modelsToImport :: "ModelMap \<Rightarrow> Model list" where
  "ts_modelsToImport mm =
     map snd
       (filter (\<lambda>(modelName, model).
                  \<not> (d_kind (m_definition model) = ''TypeAliasDefinition''
                       \<and> d_isEnum (m_definition model)))
          mm)"

definition ts_modelImport :: "string \<times> string list \<Rightarrow> string" where
  "ts_modelImport = (\<lambda>(importPath, names).
     ''import { '' @ join '', '' names @ '' } from '' @ sq @ importPath @ sq)"

definition ts_modelImports :: "GenerateArgs \<Rightarrow> string list" where
  "ts_modelImports args =
     map ts_modelImport (groupModelsNameByImportPath (ts_modelsToImport (g_modelMap args)))"

definition ts_renderHeader :: "Common \<Rightarrow> GenerateArgs \<Rightarrow> string" where
  "ts_renderHeader cm args =
     nl @ ''// Code generated by github.com/prisma/graphqlgen, DO NOT EDIT.'' @ nl
     @ nl
     @ ''import { GraphQLResolveInfo, GraphQLTypeResolver, GraphQLIsTypeOfFn } from ''
     @ sq @ ''graphql'' @ sq @ nl
     @ join EOL (ts_modelImports args) @ nl
     @ ts_renderContext cm (g_context args) @ nl
     @ ''  ''"

text \<open>
  \<open>renderIsTypeOfFunctionInterface\<close>: the possible types start as the implementers of
  the interfaces of the type, merged; then every union of the registry that has a member
  of the name of the type overwrites them with its own members.
\<close>

definition ts_possibleTypes ::
  "GraphQLTypeObject \<Rightarrow> InterfacesMap \<Rightarrow> UnionsMap \<Rightarrow> GraphQLType list option" where
  "ts_possibleTypes type interfacesMap unionsMap =
     do {
       fromInterfaces \<leftarrow>
         (case o_interfaces type of
            None \<Rightarrow> Some []
          | Some names \<Rightarrow>
              foldl (\<lambda>acc interfaceName.
                       do {
                         obj \<leftarrow> acc;
                         implementers \<leftarrow> map_of interfacesMap interfaceName;
                         Some (flatten obj implementers)
                       })
                (Some []) names);
       Some (foldl (\<lambda>possibleTypes (unionName, members).
                      if find (\<lambda>unionType. t_name unionType = o_name type) members \<noteq> None
                      then members else possibleTypes)
               fromInterfaces unionsMap)
     }"

definition ts_renderIsTypeOfFunctionInterface ::
  "Common \<Rightarrow> GraphQLTypeObject \<Rightarrow> ModelMap \<Rightarrow> InterfacesMap \<Rightarrow> UnionsMap
     \<Rightarrow> ContextDefinition option \<Rightarrow> string option" where
  "ts_renderIsTypeOfFunctionInterface cm type mm interfacesMap unionsMap ctx =
     do {
       possibleTypes \<leftarrow> ts_possibleTypes type interfacesMap unionsMap;
       Some (if length possibleTypes = 0 then []
             else ''    __isTypeOf?: GraphQLIsTypeOfFn<''
               @ join '' | ''
                   (map (\<lambda>possibleType. getModelName possibleType mm (defaultEmptyType cm))
                      possibleTypes)
               @ '', '' @ getContextName cm ctx @ ''>;'')
     }"

definition ts_inputTypeInterface ::
  "Common \<Rightarrow> ModelMap \<Rightarrow> InterfacesMap \<Rightarrow> UnionsMap \<Rightarrow> GraphQLTypeObject \<Rightarrow> string" where
  "ts_inputTypeInterface cm mm interfacesMap unionsMap inputType =
     ''export interface '' @ o_name inputType @ '' {'' @ nl
     @ ''      ''
     @ join '',''
         (map (\<lambda>field. f_name field @ '': ''
                  @ printFieldLikeType cm field mm interfacesMap unionsMap False)
            (o_fields inputType))
     @ nl
     @ ''    }''"

definition ts_renderInputTypeInterfaces ::
  "Common \<Rightarrow> GraphQLTypeObject \<Rightarrow> ModelMap \<Rightarrow> InterfacesMap \<Rightarrow> UnionsMap
     \<Rightarrow> TypeToInputTypeAssociation \<Rightarrow> InputTypesMap \<Rightarrow> string option" where
  "ts_renderInputTypeInterfaces cm type mm interfacesMap unionsMap
       typeToInputTypeAssociation inputTypesMap =
     (if property typeToInputTypeAssociation (o_name type) = Undefined then Some []
      else do {
        distinctTypes \<leftarrow> getDistinctInputTypes type typeToInputTypeAssociation inputTypesMap;
        decls \<leftarrow>
          those (map (\<lambda>typeAssociation.
                        map_option (ts_inputTypeInterface cm mm interfacesMap unionsMap)
                          (map_of inputTypesMap typeAssociation))
                   distinctTypes);
        Some (join EOL decls)
      })"

definition ts_renderInputArgInterface ::
  "Common \<Rightarrow> GraphQLTypeField \<Rightarrow> ModelMap \<Rightarrow> InterfacesMap \<Rightarrow> UnionsMap \<Rightarrow> string" where
  "ts_renderInputArgInterface cm field mm interfacesMap unionsMap =
     (if length (f_arguments field) = 0 then []
      else nl
        @ ''  export interface Args'' @ upperFirst (f_name field) @ '' {'' @ nl
        @ ''    ''
        @ join EOL
            (map (\<lambda>arg. a_name arg @ '': ''
                     @ printFieldLikeType cm (argAsField arg) mm interfacesMap unionsMap False)
               (f_arguments field))
        @ nl
        @ ''  }'' @ nl
        @ ''  '')"

definition ts_renderInputArgInterfaces ::
  "Common \<Rightarrow> GraphQLTypeObject \<Rightarrow> ModelMap \<Rightarrow> InterfacesMap \<Rightarrow> UnionsMap \<Rightarrow> string" where
  "ts_renderInputArgInterfaces cm type mm interfacesMap unionsMap =
     join EOL
       (map (\<lambda>field. ts_renderInputArgInterface cm field mm interfacesMap unionsMap)
          (o_fields type))"

text \<open>
  The parameter list of a resolver: \<open>renderResolverFunctionInterface\<close> and
  \<open>renderResolverTypeInterfaceFunction\<close> write the same template, the first with the
  model of the type as the parent.
\<close>

definition ts_resolverDefinition :: "Common \<Rightarrow> string \<Rightarrow> GraphQLTypeField
     \<Rightarrow> ContextDefinition option \<Rightarrow> string" where
  "ts_resolverDefinition cm parent field ctx =
     nl
     @ ''  ('' @ nl
     @ ''    parent: '' @ parent @ '','' @ nl
     @ ''    args: ''
     @ (if length (f_arguments field) > 0 then ''Args'' @ upperFirst (f_name field) else ''{}'')
     @ '','' @ nl
     @ ''    ctx: '' @ getContextName cm ctx @ '','' @ nl
     @ ''    info: GraphQLResolveInfo,'' @ nl
     @ ''  )'' @ nl
     @ ''  ''"

definition ts_renderResolverFunctionInterface ::
  "Common \<Rightarrow> GraphQLTypeField \<Rightarrow> GraphQLTypeObject \<Rightarrow> ModelMap \<Rightarrow> InterfacesMap
     \<Rightarrow> UnionsMap \<Rightarrow> ContextDefinition option \<Rightarrow> string" where
  "ts_renderResolverFunctionInterface cm field type mm interfacesMap unionsMap ctx =
     (let resolverName = upperFirst (f_name field) @ ''Resolver'';
          resolverDefinition =
            ts_resolverDefinition cm (getModelName (o_type type) mm ''undefined'') field ctx;
          returnType = printFieldLikeType cm field mm interfacesMap unionsMap False
      in if o_name type = ''Subscription''
         then nl
           @ ''    export type '' @ resolverName @ '' = {'' @ nl
           @ ''      subscribe: '' @ resolverDefinition @ '' => AsyncIterator<'' @ returnType
           @ ''> | Promise<AsyncIterator<'' @ returnType @ ''>>'' @ nl
           @ ''      resolve?: '' @ resolverDefinition @ '' => '' @ returnType
           @ '' | Promise<'' @ returnType @ ''>'' @ nl
           @ ''    }'' @ nl
           @ ''    ''
         else nl
           @ ''  export type '' @ resolverName @ '' = '' @ resolverDefinition @ '' => ''
           @ returnType @ '' | Promise<'' @ returnType @ ''>'' @ nl
           @ ''  '')"

definition ts_renderResolverFunctionInterfaces ::
  "Common \<Rightarrow> GraphQLTypeObject \<Rightarrow> ModelMap \<Rightarrow> InterfacesMap \<Rightarrow> UnionsMap
     \<Rightarrow> ContextDefinition option \<Rightarrow> string" where
  "ts_renderResolverFunctionInterfaces cm type mm interfacesMap unionsMap ctx =
     join EOL
       (map (\<lambda>field. ts_renderResolverFunctionInterface cm field type mm interfacesMap
                        unionsMap ctx)
          (o_fields type))"

text \<open>
  \<open>renderResolverTypeInterfaceFunction\<close>: the parent of a resolver of an interface is the
  union of the models of the implementers registered under the name of the interface.
\<close>

definition ts_parent :: "GraphQLTypeObject \<Rightarrow> ModelMap \<Rightarrow> InterfacesMap \<Rightarrow> string option" where
  "ts_parent type mm interfacesMap =
     (if isInterface (o_type type)
      then do {
        implementingTypes \<leftarrow> map_of interfacesMap (o_name type);
        Some (join '' | ''
                (map (\<lambda>implType. getModelName implType mm ''undefined'') implementingTypes))
      }
      else Some (getModelName (o_type type) mm ''undefined''))"

definition ts_renderResolverTypeInterfaceFunction ::
  "Common \<Rightarrow> GraphQLTypeField \<Rightarrow> GraphQLTypeObject \<Rightarrow> ModelMap \<Rightarrow> InterfacesMap
     \<Rightarrow> UnionsMap \<Rightarrow> ContextDefinition option \<Rightarrow> string option" where
  "ts_renderResolverTypeInterfaceFunction cm field type mm interfacesMap unionsMap ctx =
     do {
       parent \<leftarrow> ts_parent type mm interfacesMap;
       let resolverDefinition = ts_resolverDefinition cm parent field ctx;
       let returnType = printFieldLikeType cm field mm interfacesMap unionsMap False;
       Some (if o_name type = ''Subscription''
             then nl
               @ ''    '' @ f_name field @ '': {'' @ nl
               @ ''      subscribe: '' @ resolverDefinition @ '' => AsyncIterator<''
               @ returnType @ ''> | Promise<AsyncIterator<'' @ returnType @ ''>>'' @ nl
               @ ''      resolve?: '' @ resolverDefinition @ '' => '' @ returnType
               @ '' | Promise<'' @ returnType @ ''>'' @ nl
               @ ''    }'' @ nl
               @ ''    ''
             else nl
               @ ''    '' @ f_name field @ '': '' @ resolverDefinition @ '' => ''
               @ returnType @ '' | Promise<'' @ returnType @ ''>'' @ nl
               @ ''  '')
     }"

definition ts_renderResolverTypeInterface ::
  "Common \<Rightarrow> GraphQLTypeObject \<Rightarrow> ModelMap \<Rightarrow> InterfacesMap \<Rightarrow> UnionsMap
     \<Rightarrow> ContextDefinition option \<Rightarrow> string \<Rightarrow> string option" where
  "ts_renderResolverTypeInterface cm type mm interfacesMap unionsMap ctx interfaceName =
     (let extend =
            (case o_interfaces type of
               None \<Rightarrow> []
             | Some names \<Rightarrow>
                 if length names \<noteq> 0
                 then ''extends ''
                   @ join '',''
                       (map (\<lambda>typeInterface. typeInterface @ ''Resolvers.InterfaceType'') names)
                 else [])
      in do {
        functions \<leftarrow>
          those (map (\<lambda>field. ts_renderResolverTypeInterfaceFunction cm field type mm
                                  interfacesMap unionsMap ctx)
                   (o_fields type));
        isTypeOf \<leftarrow> ts_renderIsTypeOfFunctionInterface cm type mm interfacesMap unionsMap ctx;
        Some (nl
          @ ''  export interface '' @ interfaceName @ '' '' @ extend @ '' {'' @ nl
          @ ''    '' @ join EOL functions @ nl
          @ ''      '' @ isTypeOf @ nl
          @ ''  }'' @ nl
          @ ''  '')
      })"

definition ts_resolveType :: "Common \<Rightarrow> GraphQLType list \<Rightarrow> GenerateArgs \<Rightarrow> string" where
  "ts_resolveType cm members args =
     ''GraphQLTypeResolver<''
     @ join '' | ''
         (map (\<lambda>interfaceType. getModelName interfaceType (g_modelMap args) (defaultEmptyType cm))
            members)
     @ '', '' @ getContextName cm (g_context args) @ ''>;''"

definition ts_renderInterfaceNamespace ::
  "Common \<Rightarrow> GraphQLInterfaceObject \<Rightarrow> InterfacesMap \<Rightarrow> UnionsMap \<Rightarrow> GenerateArgs
     \<Rightarrow> string option" where
  "ts_renderInterfaceNamespace cm graphQLTypeObject interfacesMap unionsMap args =
     do {
       interfaceType \<leftarrow>
         ts_renderResolverTypeInterface cm (interfaceAsObject graphQLTypeObject)
           (g_modelMap args) interfacesMap unionsMap (g_context args) ''InterfaceType'';
       Some (''    export namespace '' @ i_name graphQLTypeObject @ ''Resolvers {'' @ nl
         @ ''      ''
         @ ts_renderInputArgInterfaces cm (interfaceAsObject graphQLTypeObject)
             (g_modelMap args) interfacesMap unionsMap @ nl
         @ nl
         @ ''      '' @ interfaceType @ nl
         @ nl
         @ ''      export interface Type {'' @ nl
         @ ''        __resolveType: '' @ ts_resolveType cm (i_types graphQLTypeObject) args @ nl
         @ ''      }'' @ nl
         @ ''    }'' @ nl
         @ ''  '')
     }"

definition ts_renderUnionNamespace :: "Common \<Rightarrow> GraphQLUnionObject \<Rightarrow> GenerateArgs \<Rightarrow> string" where
  "ts_renderUnionNamespace cm graphQLTypeObject args =
     ''    export namespace '' @ u_name graphQLTypeObject @ ''Resolvers {'' @ nl
     @ ''      export interface Type {'' @ nl
     @ ''        __resolveType?: '' @ ts_resolveType cm (u_types graphQLTypeObject) args @ nl
     @ ''      }'' @ nl
     @ ''    }'' @ nl
     @ ''  ''"

definition ts_renderNamespace ::
  "Common \<Rightarrow> GraphQLTypeObject \<Rightarrow> InterfacesMap \<Rightarrow> UnionsMap \<Rightarrow> TypeToInputTypeAssociation
     \<Rightarrow> InputTypesMap \<Rightarrow> GenerateArgs \<Rightarrow> string option" where
  "ts_renderNamespace cm graphQLTypeObject interfacesMap unionsMap typeToInputTypeAssociation
       inputTypesMap args =
     do {
       inputTypeInterfaces \<leftarrow>
         ts_renderInputTypeInterfaces cm graphQLTypeObject (g_modelMap args) interfacesMap
           unionsMap typeToInputTypeAssociation inputTypesMap;
       resolverTypeInterface \<leftarrow>
         ts_renderResolverTypeInterface cm graphQLTypeObject (g_modelMap args) interfacesMap
           unionsMap (g_context args) ''Type'';
       Some (''    export namespace '' @ o_name graphQLTypeObject @ ''Resolvers {'' @ nl
         @ nl
         @ ''    '' @ renderDefaultResolvers graphQLTypeObject args ''defaultResolvers'' @ nl
         @ nl
         @ ''    '' @ inputTypeInterfaces @ nl
         @ nl
         @ ''    ''
         @ ts_renderInputArgInterfaces cm graphQLTypeObject (g_modelMap args) interfacesMap
             unionsMap @ nl
         @ nl
         @ ''    ''
         @ ts_renderResolverFunctionInterfaces cm graphQLTypeObject (g_modelMap args)
             interfacesMap unionsMap (g_context args) @ nl
         @ nl
         @ ''    '' @ resolverTypeInterface @ nl
         @ nl
         @ ''    '' @ nl
         @ ''  }'' @ nl
         @ ''  '')
     }"

definition ts_renderObjectNamespaces ::
  "Common \<Rightarrow> GenerateArgs \<Rightarrow> InterfacesMap \<Rightarrow> UnionsMap \<Rightarrow> TypeToInputTypeAssociation
     \<Rightarrow> InputTypesMap \<Rightarrow> string option" where
  "ts_renderObjectNamespaces cm args interfacesMap unionsMap typeToInputTypeAssociation
       inputTypesMap =
     map_option (join EOL)
       (those (map (\<lambda>type. ts_renderNamespace cm type interfacesMap unionsMap
                              typeToInputTypeAssociation inputTypesMap args)
                 (filter (\<lambda>type. isObject (o_type type)) (g_types args))))"

definition ts_renderInterfaceNamespaces ::
  "Common \<Rightarrow> GenerateArgs \<Rightarrow> InterfacesMap \<Rightarrow> UnionsMap \<Rightarrow> string option" where
  "ts_renderInterfaceNamespaces cm args interfacesMap unionsMap =
     map_option (join EOL)
       (those (map (\<lambda>type. ts_renderInterfaceNamespace cm type interfacesMap unionsMap args)
                 (g_interfaces args)))"

definition ts_renderUnionNamespaces :: "Common \<Rightarrow> GenerateArgs \<Rightarrow> string" where
  "ts_renderUnionNamespaces cm args =
     join EOL (map (\<lambda>type. ts_renderUnionNamespace cm type args) (g_unions args))"

definition ts_renderNamespaces ::
  "Common \<Rightarrow> GenerateArgs \<Rightarrow> InterfacesMap \<Rightarrow> UnionsMap \<Rightarrow> TypeToInputTypeAssociation
     \<Rightarrow> InputTypesMap \<Rightarrow> string option" where
  "ts_renderNamespaces cm args interfacesMap unionsMap typeToInputTypeAssociation
       inputTypesMap =
     do {
       objectNamespaces \<leftarrow>
         ts_renderObjectNamespaces cm args interfacesMap unionsMap typeToInputTypeAssociation
           inputTypesMap;
       interfaceNamespaces \<leftarrow> ts_renderInterfaceNamespaces cm args interfacesMap unionsMap;
       Some (''    '' @ objectNamespaces @ nl
         @ nl
         @ ''    '' @ interfaceNamespaces @ nl
         @ nl
         @ ''    '' @ ts_renderUnionNamespaces cm args @ nl
         @ ''  '')
     }"

text \<open>
  \<open>renderResolvers\<close>: the entries of the aggregate declaration, object types first, then
  interfaces, then unions.
\<close>

definition ts_resolversEntries :: "GenerateArgs \<Rightarrow> string list" where
  "ts_resolversEntries args =
     map (\<lambda>type. o_name type @ '': '' @ o_name type @ ''Resolvers.Type'')
       (filter (\<lambda>obj. isObject (o_type obj)) (g_types args))
     @ map (\<lambda>type. i_name type @ ''?: '' @ i_name type @ ''Resolvers.Type'') (g_interfaces args)
     @ map (\<lambda>type. u_name type @ ''?: '' @ u_name type @ ''Resolvers.Type'') (g_unions args)"

definition ts_renderResolvers :: "GenerateArgs \<Rightarrow> string" where
  "ts_renderResolvers args =
     ''export interface Resolvers {'' @ nl
     @ ''  '' @ join EOL (ts_resolversEntries args) @ nl
     @ ''}'' @ nl
     @ ''  ''"

definition ts_generate :: "Common \<Rightarrow> GenerateArgs \<Rightarrow> string option" where
  "ts_generate cm args =
     (let inputTypesMap = build_inputTypesMap (g_types args);
          typeToInputTypeAssociation = build_typeToInputTypeAssociation (g_types args);
          interfacesMap = build_interfacesMap (g_interfaces args);
          unionsMap = build_unionsMap (g_unions args)
      in do {
        namespaces \<leftarrow>
          ts_renderNamespaces cm args interfacesMap unionsMap typeToInputTypeAssociation
            inputTypesMap;
        Some (''  '' @ ts_renderHeader cm args @ nl
          @ ''  '' @ nl
          @ ''  '' @ renderEnums cm args @ nl
          @ nl
          @ ''  '' @ namespaces @ nl
          @ nl
          @ ''  '' @ ts_renderResolvers args @ nl
          @ nl
          @ ''  '')
      })"

section \<open>The Flow generator\<close>

definition flow_renderContext :: "Common \<Rightarrow> ContextDefinition option \<Rightarrow> string" where
  "flow_renderContext cm ctx =
     (case ctx of
        Some c \<Rightarrow>
          ''import type  { '' @ getContextName cm ctx @ '' } from '' @ sq @ contextPath c @ sq
      | None \<Rightarrow> ''type '' @ getContextName cm ctx @ '' = any'')"

definition flow_modelImport :: "string \<times> string list \<Rightarrow> string" where
  "flow_modelImport = (\<lambda>(importPath, names).
     ''import type { '' @ join '','' names @ '' } from '' @ sq @ importPath @ sq)"

definition flow_renderHeader :: "Common \<Rightarrow> GenerateArgs \<Rightarrow> string" where
  "flow_renderHeader cm args =
     (let modelsToImport = map snd (g_modelMap args);
          modelImports =
            join EOL (map flow_modelImport (groupModelsNameByImportPath modelsToImport));
          graphQLImports = [''GraphQLResolveInfo'']
      in ''/* @flow */'' @ nl
        @ ''// Code generated by github.com/prisma/graphqlgen, DO NOT EDIT.'' @ nl
        @ nl
        @ ''import type { '' @ join '', '' graphQLImports @ '' } from '' @ sq @ ''graphql'' @ sq
        @ nl
        @ modelImports @ nl
        @ flow_renderContext cm (g_context args) @ nl
        @ ''  '')"

definition getInputArgName :: "GraphQLTypeObject \<Rightarrow> GraphQLTypeField \<Rightarrow> string" where
  "getInputArgName type field =
     upperFirst (o_name type) @ ''_Args_'' @ upperFirst (f_name field)"

definition getArgTypePrefix :: "GraphQLTypeObject \<Rightarrow> GraphQLTypeArgument \<Rightarrow> string" where
  "getArgTypePrefix type fieldArg =
     (if isScalar (a_type fieldArg) \<or> isObject (a_type fieldArg) \<or> isEnum (a_type fieldArg)
      then []
      else upperFirst (o_name type) @ ''_'')"

definition flow_inputTypeInterface ::
  "Common \<Rightarrow> GraphQLTypeObject \<Rightarrow> ModelMap \<Rightarrow> InterfacesMap \<Rightarrow> UnionsMap
     \<Rightarrow> GraphQLTypeObject \<Rightarrow> string" where
  "flow_inputTypeInterface cm type mm interfacesMap unionsMap inputType =
     ''export interface '' @ upperFirst (o_name type) @ ''_'' @ upperFirst (o_name inputType)
     @ '' {'' @ nl
     @ ''      ''
     @ join '',''
         (map (\<lambda>field. printFieldLikeType cm field mm interfacesMap unionsMap False)
            (o_fields inputType))
     @ nl
     @ ''    }''"

definition flow_renderInputTypeInterfaces ::
  "Common \<Rightarrow> GraphQLTypeObject \<Rightarrow> ModelMap \<Rightarrow> InterfacesMap \<Rightarrow> UnionsMap
     \<Rightarrow> TypeToInputTypeAssociation \<Rightarrow> InputTypesMap \<Rightarrow> string option" where
  "flow_renderInputTypeInterfaces cm type mm interfacesMap unionsMap
       typeToInputTypeAssociation inputTypesMap =
     (if property typeToInputTypeAssociation (o_name type) = Undefined then Some []
      else do {
        distinctTypes \<leftarrow> getDistinctInputTypes type typeToInputTypeAssociation inputTypesMap;
        decls \<leftarrow>
          those (map (\<lambda>typeAssociation.
                        map_option (flow_inputTypeInterface cm type mm interfacesMap unionsMap)
                          (map_of inputTypesMap typeAssociation))
                   distinctTypes);
        Some (join EOL decls)
      })"

definition flow_renderInputArgInterface ::
  "Common \<Rightarrow> GraphQLTypeObject \<Rightarrow> GraphQLTypeField \<Rightarrow> ModelMap \<Rightarrow> InterfacesMap
     \<Rightarrow> UnionsMap \<Rightarrow> string" where
  "flow_renderInputArgInterface cm type field mm interfacesMap unionsMap =
     (if length (f_arguments field) = 0 then []
      else nl
        @ ''  export interface '' @ getInputArgName type field @ '' {'' @ nl
        @ ''    ''
        @ join ('','' @ EOL)
            (map (\<lambda>arg. replace '': '' ('': '' @ getArgTypePrefix type arg)
                          (printFieldLikeType cm (argAsField arg) mm interfacesMap unionsMap
                             False))
               (f_arguments field))
        @ nl
        @ ''  }'' @ nl
        @ ''  '')"

definition flow_renderInputArgInterfaces ::
  "Common \<Rightarrow> GraphQLTypeObject \<Rightarrow> ModelMap \<Rightarrow> InterfacesMap \<Rightarrow> UnionsMap \<Rightarrow> string" where
  "flow_renderInputArgInterfaces cm type mm interfacesMap unionsMap =
     join EOL
       (map (\<lambda>field. flow_renderInputArgInterface cm type field mm interfacesMap unionsMap)
          (o_fields type))"

text \<open>
  The parameter list of a resolver. \<open>renderResolverFunctionInterface\<close> writes it with a
  line break and two blanks after the closing parenthesis,
  \<open>renderResolverTypeInterfaceFunction\<close> without; the shared part is
  \<open>flow_resolverDefinition\<close>.
\<close>

definition flow_resolverDefinition ::
  "Common \<Rightarrow> GraphQLTypeObject \<Rightarrow> GraphQLTypeField \<Rightarrow> ModelMap
     \<Rightarrow> ContextDefinition option \<Rightarrow> string" where
  "flow_resolverDefinition cm type field mm ctx =
     nl
     @ ''  ('' @ nl
     @ ''    parent: '' @ getModelName (o_type type) mm (defaultEmptyType cm) @ '','' @ nl
     @ ''    args: ''
     @ (if length (f_arguments field) > 0 then getInputArgName type field else ''{}'')
     @ '','' @ nl
     @ ''    ctx: '' @ getContextName cm ctx @ '','' @ nl
     @ ''    info: GraphQLResolveInfo,'' @ nl
     @ ''  )''"

definition flow_renderResolverFunctionInterface ::
  "Common \<Rightarrow> GraphQLTypeField \<Rightarrow> GraphQLTypeObject \<Rightarrow> ModelMap \<Rightarrow> InterfacesMap
     \<Rightarrow> UnionsMap \<Rightarrow> ContextDefinition option \<Rightarrow> string" where
  "flow_renderResolverFunctionInterface cm field type mm interfacesMap unionsMap ctx =
     (let resolverName =
            upperFirst (o_name type) @ ''_'' @ upperFirst (f_name field) @ ''_Resolver'';
          resolverDefinition = flow_resolverDefinition cm type field mm ctx @ nl @ ''  '';
          returnType = printFieldLikeType cm field mm interfacesMap unionsMap True
      in if o_name type = ''Subscription''
         then nl
           @ ''    export type '' @ resolverName @ '' = {|'' @ nl
           @ ''      subscribe: '' @ resolverDefinition @ '' => AsyncIterator<'' @ returnType
           @ ''> | Promise<AsyncIterator<'' @ returnType @ ''>>,'' @ nl
           @ ''      resolve?: '' @ resolverDefinition @ '' => ''
           @ resolverReturnType cm returnType @ nl
           @ ''    |}'' @ nl
           @ ''    ''
         else nl
           @ ''  export type '' @ resolverName @ '' = '' @ resolverDefinition @ '' => ''
           @ resolverReturnType cm returnType @ nl
           @ ''  '')"

definition flow_renderResolverFunctionInterfaces ::
  "Common \<Rightarrow> GraphQLTypeObject \<Rightarrow> ModelMap \<Rightarrow> InterfacesMap \<Rightarrow> UnionsMap
     \<Rightarrow> ContextDefinition option \<Rightarrow> string" where
  "flow_renderResolverFunctionInterfaces cm type mm interfacesMap unionsMap ctx =
     join EOL
       (map (\<lambda>field. flow_renderResolverFunctionInterface cm field type mm interfacesMap
                        unionsMap ctx)
          (o_fields type))"

definition flow_renderResolverTypeInterfaceFunction ::
  "Common \<Rightarrow> GraphQLTypeField \<Rightarrow> GraphQLTypeObject \<Rightarrow> ModelMap \<Rightarrow> InterfacesMap
     \<Rightarrow> UnionsMap \<Rightarrow> ContextDefinition option \<Rightarrow> string" where
  "flow_renderResolverTypeInterfaceFunction cm field type mm interfacesMap unionsMap ctx =
     (let resolverDefinition = flow_resolverDefinition cm type field mm ctx;
          returnType = printFieldLikeType cm field mm interfacesMap unionsMap True
      in if o_name type = ''Subscription''
         then nl
           @ ''    '' @ f_name field @ '': {|'' @ nl
           @ ''      subscribe: '' @ resolverDefinition @ '' => AsyncIterator<'' @ returnType
           @ ''> | Promise<AsyncIterator<'' @ returnType @ ''>>,'' @ nl
           @ ''      resolve?: '' @ resolverDefinition @ '' => ''
           @ resolverReturnType cm returnType @ nl
           @ ''    |}'' @ nl
           @ ''    ''
         else nl
           @ ''  '' @ f_name field @ '': '' @ resolverDefinition @ '' => ''
           @ resolverReturnType cm returnType @ '','' @ nl
           @ ''  '')"

definition flow_renderResolverTypeInterface ::
  "Common \<Rightarrow> GraphQLTypeObject \<Rightarrow> ModelMap \<Rightarrow> InterfacesMap \<Rightarrow> UnionsMap
     \<Rightarrow> ContextDefinition option \<Rightarrow> string" where
  "flow_renderResolverTypeInterface cm type mm interfacesMap unionsMap ctx =
     nl
     @ ''  export interface '' @ upperFirst (o_name type) @ ''_Resolvers {'' @ nl
     @ ''    ''
     @ join EOL
         (map (\<lambda>field. flow_renderResolverTypeInterfaceFunction cm field type mm interfacesMap
                          unionsMap ctx)
            (o_fields type))
     @ nl
     @ ''  }'' @ nl
     @ ''  ''"

definition flow_renderNamespace ::
  "Common \<Rightarrow> GraphQLTypeObject \<Rightarrow> InterfacesMap \<Rightarrow> UnionsMap \<Rightarrow> TypeToInputTypeAssociation
     \<Rightarrow> InputTypesMap \<Rightarrow> GenerateArgs \<Rightarrow> string option" where
  "flow_renderNamespace cm type interfacesMap unionsMap typeToInputTypeAssociation
       inputTypesMap args =
     (let typeName = upperFirst (o_name type)
      in do {
        inputTypeInterfaces \<leftarrow>
          flow_renderInputTypeInterfaces cm type (g_modelMap args) interfacesMap unionsMap
            typeToInputTypeAssociation inputTypesMap;
        Some (''    // Types for '' @ typeName @ nl
          @ ''    ''
          @ (if g_defaultResolversEnabled args
             then renderDefaultResolvers type args (typeName @ ''_defaultResolvers'')
             else [])
          @ nl
          @ nl
          @ ''    '' @ inputTypeInterfaces @ nl
          @ nl
          @ ''    ''
          @ flow_renderInputArgInterfaces cm type (g_modelMap args) interfacesMap unionsMap
          @ nl
          @ nl
          @ ''    ''
          @ flow_renderResolverFunctionInterfaces cm type (g_modelMap args) interfacesMap
              unionsMap (g_context args)
          @ nl
          @ nl
          @ ''    ''
          @ flow_renderResolverTypeInterface cm type (g_modelMap args) interfacesMap unionsMap
              (g_context args)
          @ nl
          @ nl
          @ ''    '' @ nl
          @ ''  '')
      })"

definition flow_renderUnionNamespace :: "Common \<Rightarrow> GraphQLUnionObject \<Rightarrow> GenerateArgs \<Rightarrow> string" where
  "flow_renderUnionNamespace cm graphQLTypeObject args =
     ''    export interface '' @ u_name graphQLTypeObject @ ''_Resolvers {'' @ nl
     @ ''      __resolveType?: '' @ renderTypeResolveTypeResolver cm graphQLTypeObject args @ nl
     @ ''    }'' @ nl
     @ ''  ''"

definition flow_renderUnionNamespaces :: "Common \<Rightarrow> GenerateArgs \<Rightarrow> string" where
  "flow_renderUnionNamespaces cm args =
     join EOL (map (\<lambda>type. flow_renderUnionNamespace cm type args) (g_unions args))"

definition flow_renderNamespaces ::
  "Common \<Rightarrow> GenerateArgs \<Rightarrow> InterfacesMap \<Rightarrow> UnionsMap \<Rightarrow> TypeToInputTypeAssociation
     \<Rightarrow> InputTypesMap \<Rightarrow> string option" where
  "flow_renderNamespaces cm args interfacesMap unionsMap typeToInputTypeAssociation
       inputTypesMap =
     do {
       objectNamespaces \<leftarrow>
         map_option (join EOL)
           (those (map (\<lambda>type. flow_renderNamespace cm type interfacesMap unionsMap
                                  typeToInputTypeAssociation inputTypesMap args)
                     (filter (\<lambda>type. isObject (o_type type)) (g_types args))));
       Some (''    '' @ objectNamespaces @ nl
         @ nl
         @ ''    '' @ flow_renderUnionNamespaces cm args @ nl
         @ ''  '')
     }"

definition flow_resolversEntries :: "GenerateArgs \<Rightarrow> string list" where
  "flow_resolversEntries args =
     map (\<lambda>type. o_name type @ '': '' @ upperFirst (o_name type) @ ''_Resolvers'')
       (filter (\<lambda>type. isObject (o_type type)) (g_types args))
     @ map (\<lambda>type. i_name type @ ''?: '' @ upperFirst (i_name type) @ ''_Resolvers'')
         (g_interfaces args)
     @ map (\<lambda>type. u_name type @ ''?: '' @ upperFirst (u_name type) @ ''_Resolvers'')
         (g_unions args)"

definition flow_renderResolvers :: "GenerateArgs \<Rightarrow> string" where
  "flow_renderResolvers args =
     nl
     @ ''export interface Resolvers {'' @ nl
     @ ''  '' @ join ('','' @ EOL) (flow_resolversEntries args) @ nl
     @ ''}'' @ nl
     @ ''  ''"

definition flow_generate :: "Common \<Rightarrow> GenerateArgs \<Rightarrow> string option" where
  "flow_generate cm args =
     (let inputTypesMap = build_inputTypesMap (g_types args);
          typeToInputTypeAssociation = build_typeToInputTypeAssociation (g_types args);
          interfacesMap = createInterfacesMap cm (g_interfaces args);
          unionsMap = createUnionsMap cm (g_unions args)
      in do {
        namespaces \<leftarrow>
          flow_renderNamespaces cm args interfacesMap unionsMap typeToInputTypeAssociation
            inputTypesMap;
        Some (''  '' @ flow_renderHeader cm args @ nl
          @ nl
          @ ''  '' @ renderEnums cm args @ nl
          @ nl
          @ ''  '' @ namespaces @ nl
          @ nl
          @ ''  '' @ flow_renderResolvers args @ nl
          @ nl
          @ ''  '')
      })"

section \<open>External formatting\<close>

text \<open>
  \<open>format\<close> hands the generated text to \<open>prettier.format\<close> and catches whatever it
  throws. The formatter is external: it is a parameter that either throws (\<open>Inl e\<close>) or
  returns the formatted text. Its options are the options of the caller with the
  \<open>parser\<close> key overridden. What \<open>console.log\<close> writes is returned next to the
  result, as the list of the messages; \<open>JSON.stringify\<close> is a parameter as well.
\<close>

type_synonym Options = "(string \<times> string) list"

definition ts_format ::
  "(string \<Rightarrow> Options \<Rightarrow> 'e + string) \<Rightarrow> ('e \<Rightarrow> string) \<Rightarrow> string \<Rightarrow> Options
     \<Rightarrow> string \<times> string list" where
  "ts_format prettier_format JSON_stringify code options =
     (case prettier_format code (AList.update ''parser'' ''typescript'' options) of
        Inr formatted \<Rightarrow> (formatted, [])
      | Inl e \<Rightarrow>
          (code,
           [''There is a syntax error in generated code, unformatted code printed, error: ''
              @ JSON_stringify e]))"

definition flow_format ::
  "(string \<Rightarrow> Options \<Rightarrow> 'e + string) \<Rightarrow> ('e \<Rightarrow> string) \<Rightarrow> string \<Rightarrow> Options
     \<Rightarrow> string \<times> string list" where
  "flow_format prettier_format JSON_stringify code options =
     (case prettier_format code (AList.update ''parser'' ''flow'' options) of
        Inr formatted \<Rightarrow> (formatted, [])
      | Inl e \<Rightarrow>
          (code,
           [''There is a syntax error in generated code, unformatted code printed, error: ''
              @ JSON_stringify e]))"

section \<open>Reading the generated text\<close>

text \<open>
  The theorems below speak about the text that is generated. These functions read it
  back: the name declared by the text of an interface declaration, and the position at
  which a value is first met in a list.
\<close>

definition nameChars :: string where
  "nameChars = ''_abcdefghijklmnopqrstuvwxyzABCDEFGHIJKLMNOPQRSTUVWXYZ0123456789''"

text \<open>
  The names of a schema: letters, digits and the underscore, not starting with a digit
  (\<open>graphQLName\<close>). \<open>validName\<close> leaves out, in addition, the names that every
  JavaScript object inherits from \<open>Object.prototype\<close>: looked up in a dictionary
  object, they are found whether or not they were stored.
\<close>

definition graphQLName :: "string \<Rightarrow> bool" where
  "graphQLName n =
     (n \<noteq> [] \<and> list_all (\<lambda>c. c \<in> set nameChars) n \<and> hd n \<notin> set ''0123456789'')"

definition validName :: "string \<Rightarrow> bool" where
  "validName n =
     (n \<noteq> [] \<and> list_all (\<lambda>c. c \<in> set nameChars) n \<and> hd n \<notin> set ''0123456789''
      \<and> n \<notin> set objectPrototypeKeys)"

text \<open>
  The name after \<open>export interface\<close>, when the text, leading blanks and line breaks
  apart, starts with these words; \<open>None\<close> when it declares no interface.
\<close>

definition declaredInterface :: "string \<Rightarrow> string option" where
  "declaredInterface text =
     (let t = dropWhile (\<lambda>c. c = CHR '' '' \<or> c = CHR 0x0A) text
      in if prefix ''export interface '' t
         then Some (takeWhile (\<lambda>c. c \<noteq> CHR '' '') (drop (length ''export interface '') t))
         else None)"


text \<open>The name after \<open>export namespace\<close>, read in the same manner.\<close>

definition declaredNamespace :: "string \<Rightarrow> string option" where
  "declaredNamespace text =
     (let t = dropWhile (\<lambda>c. c = CHR '' '' \<or> c = CHR 0x0A) text
      in if prefix ''export namespace '' t
         then Some (takeWhile (\<lambda>c. c \<noteq> CHR '' '') (drop (length ''export namespace '') t))
         else None)"


text \<open>
  The names declared anywhere in a text: the word after each occurrence of a keyword
  phrase, such as \<open>export interface\<close> followed by a blank.
\<close>

fun declarationsIn :: "string \<Rightarrow> string \<Rightarrow> string list" where
  "declarationsIn keyword [] = []"
| "declarationsIn keyword (c # cs) =
     (if prefix keyword (c # cs)
      then takeWhile (\<lambda>x. x \<noteq> CHR '' '') (drop (length keyword) (c # cs))
             # declarationsIn keyword cs
      else declarationsIn keyword cs)"

definition interfaceNames :: "string \<Rightarrow> string list" where
  "interfaceNames text = declarationsIn ''export interface '' text"


definition namespaceNames :: "string \<Rightarrow> string list" where
  "namespaceNames text = declarationsIn ''export namespace '' text"

text \<open>
  The names of the object types and of the input types of a schema, and the input types
  that are reachable from the input types named by the arguments of an object type: an
  input type named by an argument is reachable, and so is an input type that a field of
  a reachable input type takes.
\<close>

definition objectTypeNames :: "GraphQLTypeObject list \<Rightarrow> string list" where
  "objectTypeNames tys = map o_name (filter (\<lambda>type. isObject (o_type type)) tys)"

definition inputTypeNames :: "GraphQLTypeObject list \<Rightarrow> string list" where
  "inputTypeNames tys = map o_name (filter (\<lambda>type. isInput (o_type type)) tys)"

inductive_set reachableInputTypes :: "InputTypesMap \<Rightarrow> string list \<Rightarrow> string set"
  for inputTypesMap :: InputTypesMap and typeNames :: "string list" where
  argument: "n \<in> set typeNames \<Longrightarrow> n \<in> reachableInputTypes inputTypesMap typeNames"
| field: "n \<in> reachableInputTypes inputTypesMap typeNames
     \<Longrightarrow> map_of inputTypesMap n = Some type
     \<Longrightarrow> m \<in> set (inputFieldTypeNames type)
     \<Longrightarrow> m \<in> reachableInputTypes inputTypesMap typeNames"

text \<open>
  The shape of a declared type alias: what follows the equals sign of \<open>export type\<close>
  opens an object type (the two functions of a subscription field) or the parameter
  list of a function type.
\<close>

datatype ResolverShape = TwoFunctions | OneFunction

definition typeAliasBody :: "string \<Rightarrow> string" where
  "typeAliasBody text =
     dropWhile (\<lambda>c. c = CHR '' '' \<or> c = CHR 0x0A)
       (drop 1 (dropWhile (\<lambda>c. c \<noteq> CHR ''='') text))"

definition resolverShape :: "string \<Rightarrow> ResolverShape option" where
  "resolverShape text =
     (if prefix ''{'' (typeAliasBody text) then Some TwoFunctions
      else if prefix ''('' (typeAliasBody text) then Some OneFunction
      else None)"

text \<open>
  An entry of the aggregate declaration, \<open>name: target\<close> or \<open>name?: target\<close>: its
  key, whether it is marked optional, and the declaration it refers to.
\<close>

definition entryKey :: "string \<Rightarrow> string" where
  "entryKey entry = takeWhile (\<lambda>c. c \<noteq> CHR '':'' \<and> c \<noteq> CHR ''?'') entry"

definition entryOptional :: "string \<Rightarrow> bool" where
  "entryOptional entry =
     prefix ''?'' (dropWhile (\<lambda>c. c \<noteq> CHR '':'' \<and> c \<noteq> CHR ''?'') entry)"

definition entryTarget :: "string \<Rightarrow> string" where
  "entryTarget entry = drop 2 (dropWhile (\<lambda>c. c \<noteq> CHR '':'') entry)"

text \<open>A model whose definition is a type alias marked as an enum.\<close>

definition isEnumAlias :: "Model \<Rightarrow> bool" where
  "isEnumAlias model =
     (d_kind (m_definition model) = ''TypeAliasDefinition'' \<and> d_isEnum (m_definition model))"

text \<open>
  The interfaces that an object type names, the implementers registered for them, in
  order, and the unions of the registry that have a member of the name of the type, in
  the order in which the registry is enumerated.
\<close>

definition interfacesOf :: "GraphQLTypeObject \<Rightarrow> string list" where
  "interfacesOf type = (case o_interfaces type of None \<Rightarrow> [] | Some names \<Rightarrow> names)"

definition interfaceImplementers :: "GraphQLTypeObject \<Rightarrow> InterfacesMap \<Rightarrow> GraphQLType list" where
  "interfaceImplementers type interfacesMap =
     concat (map (\<lambda>interfaceName.
                    case map_of interfacesMap interfaceName of
                      None \<Rightarrow> []
                    | Some implementers \<Rightarrow> implementers)
               (interfacesOf type))"

definition unionsWithMember ::
  "GraphQLTypeObject \<Rightarrow> UnionsMap \<Rightarrow> (string \<times> GraphQLType list) list" where
  "unionsWithMember type unionsMap =
     filter (\<lambda>(unionName, members). o_name type \<in> t_name ` set members) unionsMap"

section \<open>An example schema\<close>

text \<open>
  A small schema on which the theorems are run: the object types \<open>Query\<close> and \<open>User\<close>
  take the input type \<open>Filter\<close> as an argument, \<open>Query\<close> twice. Where a text has to
  be computed, the printing helpers are the stand-ins of \<open>exampleCommon\<close>.
\<close>

definition namedType :: "string \<Rightarrow> GraphQLType" where
  "namedType n = \<lparr>t_name = n, isScalar = False, isEnum = False, isInput = False,
     isObject = False, isInterface = False, isUnion = False\<rparr>"

definition exampleCommon :: Common where
  "exampleCommon =
     \<lparr>getContextName = (\<lambda>ctx. case ctx of None \<Rightarrow> ''Context'' | Some c \<Rightarrow> contextName c),
      printFieldLikeType = (\<lambda>field mm im um isReturn. t_name (f_type field)),
      resolverReturnType = (\<lambda>t. t @ '' | Promise<'' @ t @ ''>''),
      renderEnums = (\<lambda>args. []),
      renderTypeResolveTypeResolver = (\<lambda>u args. ''any''),
      defaultEmptyType = ''{}'',
      createInterfacesMap = build_interfacesMap,
      createUnionsMap = build_unionsMap\<rparr>"

definition exFilter :: GraphQLTypeObject where
  "exFilter = \<lparr>o_name = ''Filter'', o_type = (namedType ''Filter'')\<lparr>isInput := True\<rparr>,
     o_fields = [\<lparr>f_name = ''text'', f_type = (namedType ''String'')\<lparr>isScalar := True\<rparr>,
                  f_arguments = []\<rparr>],
     o_interfaces = None\<rparr>"

definition exOrder :: GraphQLTypeObject where
  "exOrder = \<lparr>o_name = ''Order'', o_type = (namedType ''Order'')\<lparr>isInput := True\<rparr>,
     o_fields = [\<lparr>f_name = ''by'', f_type = (namedType ''String'')\<lparr>isScalar := True\<rparr>,
                  f_arguments = []\<rparr>],
     o_interfaces = None\<rparr>"

definition exQuery :: GraphQLTypeObject where
  "exQuery = \<lparr>o_name = ''Query'', o_type = (namedType ''Query'')\<lparr>isObject := True\<rparr>,
     o_fields =
       [\<lparr>f_name = ''posts'', f_type = (namedType ''Post'')\<lparr>isObject := True\<rparr>,
         f_arguments =
           [\<lparr>a_name = ''filter'', a_type = (namedType ''Filter'')\<lparr>isInput := True\<rparr>\<rparr>,
            \<lparr>a_name = ''order'', a_type = (namedType ''Order'')\<lparr>isInput := True\<rparr>\<rparr>]\<rparr>,
        \<lparr>f_name = ''users'', f_type = (namedType ''User'')\<lparr>isObject := True\<rparr>,
         f_arguments =
           [\<lparr>a_name = ''filter'', a_type = (namedType ''Filter'')\<lparr>isInput := True\<rparr>\<rparr>]\<rparr>],
     o_interfaces = None\<rparr>"

definition exUser :: GraphQLTypeObject where
  "exUser = \<lparr>o_name = ''User'', o_type = (namedType ''User'')\<lparr>isObject := True\<rparr>,
     o_fields =
       [\<lparr>f_name = ''id'', f_type = (namedType ''ID'')\<lparr>isScalar := True\<rparr>, f_arguments = []\<rparr>,
        \<lparr>f_name = ''posts'', f_type = (namedType ''Post'')\<lparr>isObject := True\<rparr>,
         f_arguments =
           [\<lparr>a_name = ''filter'', a_type = (namedType ''Filter'')\<lparr>isInput := True\<rparr>\<rparr>]\<rparr>],
     o_interfaces = None\<rparr>"

definition exTypes :: "GraphQLTypeObject list" where
  "exTypes = [exQuery, exUser, exFilter, exOrder]"

text \<open>
  A schema may hold two object types whose names differ in the case of the first
  letter only: \<open>user\<close> next to \<open>User\<close>.
\<close>

definition exLowerUser :: GraphQLTypeObject where
  "exLowerUser = \<lparr>o_name = ''user'', o_type = (namedType ''user'')\<lparr>isObject := True\<rparr>,
     o_fields =
       [\<lparr>f_name = ''friends'', f_type = (namedType ''user'')\<lparr>isObject := True\<rparr>,
         f_arguments =
           [\<lparr>a_name = ''filter'', a_type = (namedType ''Filter'')\<lparr>isInput := True\<rparr>\<rparr>]\<rparr>],
     o_interfaces = None\<rparr>"

definition exCaseTypes :: "GraphQLTypeObject list" where
  "exCaseTypes = [exLowerUser, exUser, exFilter]"

text \<open>The arguments of a generation run on the example schema.\<close>

definition exArgs :: GenerateArgs where
  "exArgs = \<lparr>g_types = exTypes, g_interfaces = [], g_unions = [], g_modelMap = [],
     g_context = None, g_defaultResolversEnabled = True\<rparr>"

text \<open>The subscription root type, and two fields used on their own.\<close>

definition exSubscription :: GraphQLTypeObject where
  "exSubscription =
     \<lparr>o_name = ''Subscription'', o_type = (namedType ''Subscription'')\<lparr>isObject := True\<rparr>,
      o_fields =
        [\<lparr>f_name = ''userAdded'', f_type = (namedType ''User'')\<lparr>isObject := True\<rparr>,
          f_arguments = []\<rparr>],
      o_interfaces = None\<rparr>"

definition exIdField :: GraphQLTypeField where
  "exIdField = \<lparr>f_name = ''id'', f_type = (namedType ''ID'')\<lparr>isScalar := True\<rparr>,
     f_arguments = []\<rparr>"

definition exUserAddedField :: GraphQLTypeField where
  "exUserAddedField = \<lparr>f_name = ''userAdded'', f_type = (namedType ''User'')\<lparr>isObject := True\<rparr>,
     f_arguments = []\<rparr>"

text \<open>
  Two fields of one type whose names differ in the case of the first letter only, and
  the field \<open>posts\<close> of \<open>User\<close> on its own.
\<close>

definition exLowerUserField :: GraphQLTypeField where
  "exLowerUserField =
     \<lparr>f_name = ''user'', f_type = (namedType ''User'')\<lparr>isObject := True\<rparr>,
      f_arguments = [\<lparr>a_name = ''id'', a_type = (namedType ''ID'')\<lparr>isScalar := True\<rparr>\<rparr>]\<rparr>"

definition exUpperUserField :: GraphQLTypeField where
  "exUpperUserField =
     \<lparr>f_name = ''User'', f_type = (namedType ''User'')\<lparr>isObject := True\<rparr>,
      f_arguments = [\<lparr>a_name = ''id'', a_type = (namedType ''ID'')\<lparr>isScalar := True\<rparr>\<rparr>]\<rparr>"

definition exCaseQuery :: GraphQLTypeObject where
  "exCaseQuery = \<lparr>o_name = ''Query'', o_type = (namedType ''Query'')\<lparr>isObject := True\<rparr>,
     o_fields = [exLowerUserField, exUpperUserField],
     o_interfaces = None\<rparr>"

definition exPostsField :: GraphQLTypeField where
  "exPostsField = \<lparr>f_name = ''posts'', f_type = (namedType ''Post'')\<lparr>isObject := True\<rparr>,
     f_arguments =
       [\<lparr>a_name = ''filter'', a_type = (namedType ''Filter'')\<lparr>isInput := True\<rparr>\<rparr>]\<rparr>"

text \<open>
  A fuller schema: \<open>Post\<close> and \<open>Comment\<close> implement the interface \<open>Node\<close>, the
  union \<open>SearchResult\<close> has the members \<open>Post\<close> and \<open>User\<close>, and the model map binds
  three models (two of them imported from one path) and an enum alias.
\<close>

definition exPost :: GraphQLTypeObject where
  "exPost = \<lparr>o_name = ''Post'', o_type = (namedType ''Post'')\<lparr>isObject := True\<rparr>,
     o_fields =
       [\<lparr>f_name = ''id'', f_type = (namedType ''ID'')\<lparr>isScalar := True\<rparr>, f_arguments = []\<rparr>,
        \<lparr>f_name = ''title'', f_type = (namedType ''String'')\<lparr>isScalar := True\<rparr>,
         f_arguments = []\<rparr>],
     o_interfaces = Some [''Node'']\<rparr>"

definition exComment :: GraphQLTypeObject where
  "exComment = \<lparr>o_name = ''Comment'', o_type = (namedType ''Comment'')\<lparr>isObject := True\<rparr>,
     o_fields =
       [\<lparr>f_name = ''id'', f_type = (namedType ''ID'')\<lparr>isScalar := True\<rparr>, f_arguments = []\<rparr>,
        \<lparr>f_name = ''body'', f_type = (namedType ''String'')\<lparr>isScalar := True\<rparr>,
         f_arguments = [\<lparr>a_name = ''length'', a_type = (namedType ''Int'')\<lparr>isScalar := True\<rparr>\<rparr>]\<rparr>],
     o_interfaces = Some [''Node'']\<rparr>"

definition exNode :: GraphQLInterfaceObject where
  "exNode = \<lparr>i_name = ''Node'', i_type = (namedType ''Node'')\<lparr>isInterface := True\<rparr>,
     i_fields =
       [\<lparr>f_name = ''id'', f_type = (namedType ''ID'')\<lparr>isScalar := True\<rparr>, f_arguments = []\<rparr>],
     i_types = [(namedType ''Post'')\<lparr>isObject := True\<rparr>,
                (namedType ''Comment'')\<lparr>isObject := True\<rparr>]\<rparr>"

definition exSearchResult :: GraphQLUnionObject where
  "exSearchResult =
     \<lparr>u_name = ''SearchResult'', u_type = (namedType ''SearchResult'')\<lparr>isUnion := True\<rparr>,
      u_types = [(namedType ''Post'')\<lparr>isObject := True\<rparr>,
                 (namedType ''User'')\<lparr>isObject := True\<rparr>]\<rparr>"

definition exModel :: "string \<Rightarrow> string \<Rightarrow> string list \<Rightarrow> Model" where
  "exModel n path properties =
     \<lparr>m_definition = \<lparr>d_kind = ''InterfaceDefinition'', d_name = n, d_isEnum = False,
                       d_properties = properties\<rparr>,
      m_importPath = path\<rparr>"

definition exRoleModel :: Model where
  "exRoleModel =
     \<lparr>m_definition = \<lparr>d_kind = ''TypeAliasDefinition'', d_name = ''Role'', d_isEnum = True,
                       d_properties = []\<rparr>,
      m_importPath = ''./enums''\<rparr>"

definition exModelMap :: ModelMap where
  "exModelMap =
     [(''User'', exModel ''UserModel'' ''./models'' [''id'', ''name'']),
      (''Post'', exModel ''PostModel'' ''./models'' [''id'', ''title'']),
      (''Comment'', exModel ''CommentModel'' ''./comments'' [''id'']),
      (''Role'', exRoleModel)]"

definition exFullTypes :: "GraphQLTypeObject list" where
  "exFullTypes = [exQuery, exUser, exPost, exComment, exFilter, exOrder]"

definition exFullArgs :: GenerateArgs where
  "exFullArgs = \<lparr>g_types = exFullTypes, g_interfaces = [exNode], g_unions = [exSearchResult],
     g_modelMap = exModelMap, g_context = None, g_defaultResolversEnabled = False\<rparr>"

text \<open>The same run with a model bound to the interface \<open>Node\<close> itself.\<close>

definition exBoundNodeArgs :: GenerateArgs where
  "exBoundNodeArgs =
     exFullArgs\<lparr>g_modelMap := (''Node'', exModel ''NodeModel'' ''./models'' [''id'']) # exModelMap\<rparr>"

text \<open>A second union with the member \<open>Post\<close>, and the registry of the two unions.\<close>

definition exFeedItem :: GraphQLUnionObject where
  "exFeedItem =
     \<lparr>u_name = ''FeedItem'', u_type = (namedType ''FeedItem'')\<lparr>isUnion := True\<rparr>,
      u_types = [(namedType ''Comment'')\<lparr>isObject := True\<rparr>,
                 (namedType ''Post'')\<lparr>isObject := True\<rparr>]\<rparr>"

definition exUnionsMap :: UnionsMap where
  "exUnionsMap = build_unionsMap [exSearchResult, exFeedItem]"


text \<open>
  A schema with input types that refer to each other: the field \<open>items\<close> of \<open>Find\<close>
  takes a \<open>Where\<close>, an \<open>Order\<close> and a \<open>Range\<close>; a \<open>Where\<close> holds a \<open>Range\<close>
  and another \<open>Where\<close>.
\<close>

definition exScalarField :: "string \<Rightarrow> string \<Rightarrow> GraphQLTypeField" where
  "exScalarField n t = \<lparr>f_name = n, f_type = (namedType t)\<lparr>isScalar := True\<rparr>, f_arguments = []\<rparr>"

definition exInputField :: "string \<Rightarrow> string \<Rightarrow> GraphQLTypeField" where
  "exInputField n t = \<lparr>f_name = n, f_type = (namedType t)\<lparr>isInput := True\<rparr>, f_arguments = []\<rparr>"

definition exInputArg :: "string \<Rightarrow> string \<Rightarrow> GraphQLTypeArgument" where
  "exInputArg n t = \<lparr>a_name = n, a_type = (namedType t)\<lparr>isInput := True\<rparr>\<rparr>"

definition exScalarArg :: "string \<Rightarrow> string \<Rightarrow> GraphQLTypeArgument" where
  "exScalarArg n t = \<lparr>a_name = n, a_type = (namedType t)\<lparr>isScalar := True\<rparr>\<rparr>"

definition exInputType :: "string \<Rightarrow> GraphQLTypeField list \<Rightarrow> GraphQLTypeObject" where
  "exInputType n fs = \<lparr>o_name = n, o_type = (namedType n)\<lparr>isInput := True\<rparr>,
     o_fields = fs, o_interfaces = None\<rparr>"

definition exObjectType :: "string \<Rightarrow> GraphQLTypeField list \<Rightarrow> GraphQLTypeObject" where
  "exObjectType n fs = \<lparr>o_name = n, o_type = (namedType n)\<lparr>isObject := True\<rparr>,
     o_fields = fs, o_interfaces = None\<rparr>"

definition exObjectField ::
  "string \<Rightarrow> GraphQLTypeArgument list \<Rightarrow> string \<Rightarrow> GraphQLTypeField" where
  "exObjectField n arguments t =
     \<lparr>f_name = n, f_type = (namedType t)\<lparr>isObject := True\<rparr>, f_arguments = arguments\<rparr>"

definition exSchema :: "GraphQLTypeObject list \<Rightarrow> GenerateArgs" where
  "exSchema tys = \<lparr>g_types = tys, g_interfaces = [], g_unions = [], g_modelMap = [],
     g_context = None, g_defaultResolversEnabled = False\<rparr>"














text \<open>
  Fields and types whose argument bags meet another declaration: a field named like the
  resolver alias of another field, type names with an underscore, and an object type
  next to an interface of the same name.
\<close>

definition exAliasQuery :: GraphQLTypeObject where
  "exAliasQuery = exObjectType ''Query''
     [exScalarField ''argsX'' ''Int'',
      exObjectField ''xResolver'' [exScalarArg ''a'' ''Int''] ''Post'']"

definition exFlowAliasQuery :: GraphQLTypeObject where
  "exFlowAliasQuery = exObjectType ''Query''
     [exScalarField ''args'' ''Int'',
      exObjectField ''resolver'' [exScalarArg ''a'' ''Int''] ''Post'']"

definition exUnderscoreA :: GraphQLTypeObject where
  "exUnderscoreA = exObjectType ''A'' [exObjectField ''b_Args_C'' [exScalarArg ''x'' ''Int''] ''Post'']"

definition exUnderscoreAB :: GraphQLTypeObject where
  "exUnderscoreAB = exObjectType ''A_Args_B'' [exObjectField ''c'' [exScalarArg ''x'' ''Int''] ''Post'']"

definition exLowerUserPosts :: GraphQLTypeObject where
  "exLowerUserPosts = exObjectType ''user'' [exPostsField]"

definition exNodeObject :: GraphQLTypeObject where
  "exNodeObject = exObjectType ''Node'' [exObjectField ''child'' [exScalarArg ''depth'' ''Int''] ''Node'']"

definition exNodeInterface :: GraphQLInterfaceObject where
  "exNodeInterface = \<lparr>i_name = ''Node'', i_type = (namedType ''Node'')\<lparr>isInterface := True\<rparr>,
     i_fields = [exObjectField ''child'' [exScalarArg ''depth'' ''Int''] ''Node''],
     i_types = [(namedType ''Post'')\<lparr>isObject := True\<rparr>]\<rparr>"

text \<open>The fuller run with no model bound to \<open>Comment\<close>.\<close>

definition exUnboundCommentArgs :: GenerateArgs where
  "exUnboundCommentArgs =
     exFullArgs\<lparr>g_modelMap := [(''User'', exModel ''UserModel'' ''./models'' [''id'', ''name'']),
                                 (''Post'', exModel ''PostModel'' ''./models'' [''id'', ''title''])]\<rparr>"
section \<open>Properties of the helpers and of the indices\<close>

lemmas ex_defs = exTypes_def exQuery_def exUser_def exFilter_def exOrder_def namedType_def
  exampleCommon_def

lemmas ex_full_defs = exFullArgs_def exFullTypes_def exPost_def exComment_def exNode_def
  exSearchResult_def exModelMap_def exModel_def exRoleModel_def

lemmas ex_schema_defs = exSchema_def exScalarField_def exInputField_def exInputArg_def
  exScalarArg_def exInputType_def exObjectType_def exObjectField_def

lemma set_firstSeen: "set (firstSeen xs) = set xs"
  by (induction xs rule: firstSeen.induct) auto

lemma distinct_firstSeen: "distinct (firstSeen xs)"
  by (induction xs rule: firstSeen.induct) (auto simp: set_firstSeen)





lemma map_of_foldl_update:
  "distinct (map key xs) \<Longrightarrow> x \<in> set xs \<Longrightarrow>
   map_of (foldl (\<lambda>acc t. AList.update (key t) (val t) acc) init xs) (key x) = Some (val x)"
proof (induction xs arbitrary: init rule: rev_induct)
  case Nil
  then show ?case by simp
next
  case (snoc y ys)
  show ?case
  proof (cases "x = y")
    case True
    then show ?thesis by (simp add: update_conv')
  next
    case False
    with snoc.prems have in_ys: "x \<in> set ys" by simp
    then have "key x \<in> key ` set ys" by (rule imageI)
    moreover from snoc.prems have "key y \<notin> key ` set ys" by simp
    ultimately have "key x \<noteq> key y" by metis
    note in_ys this
    with snoc show ?thesis by (simp add: update_conv')
  qed
qed

lemma map_of_foldl_update_None:
  "k \<notin> key ` set xs \<Longrightarrow>
   map_of (foldl (\<lambda>acc t. AList.update (key t) (val t) acc) init xs) k = map_of init k"
  by (induction xs arbitrary: init rule: rev_induct) (auto simp: update_conv')

lemma validName_chars: "validName n \<Longrightarrow> c \<in> set n \<Longrightarrow> c \<in> set nameChars"
  by (simp add: validName_def list_all_iff)

lemma validName_no_space: "validName n \<Longrightarrow> CHR '' '' \<notin> set n"
  using validName_chars [of n "CHR '' ''"] by (auto simp: nameChars_def)

lemma toUpperCase_nameChars: "c \<in> set nameChars \<Longrightarrow> toUpperCase c \<in> set nameChars"
  by (auto simp: nameChars_def toUpperCase_def)

lemma upperFirst_chars:
  "validName n \<Longrightarrow> c \<in> set (upperFirst n) \<Longrightarrow> c \<in> set nameChars"
  by (cases n) (auto simp: validName_def list_all_iff toUpperCase_nameChars)

lemma upperFirst_no_space: "validName n \<Longrightarrow> CHR '' '' \<notin> set (upperFirst n)"
  using upperFirst_chars [of n "CHR '' ''"] by (auto simp: nameChars_def)

lemma takeWhile_name:
  "CHR '' '' \<notin> set n \<Longrightarrow> takeWhile (\<lambda>c. c \<noteq> CHR '' '') (n @ CHR '' '' # rest) = n"
  by (induction n) auto



lemma hasInputArgs_iff:
  "(length (filter (\<lambda>field. length (filter (\<lambda>arg. isInput (a_type arg)) (f_arguments field)) > 0)
              (o_fields type)) > 0)
   = (inputArgTypeNames type \<noteq> [])"
  by (auto simp: inputArgTypeNames_def filter_empty_conv)

lemma declaredNamespace_header:
  "CHR '' '' \<notin> set n \<Longrightarrow>
   declaredNamespace (''    export namespace '' @ n @ '' {'' @ rest) = Some n"
  by (simp add: declaredNamespace_def takeWhile_name)

lemma ts_renderNamespace_declares:
  assumes "ts_renderNamespace cm type im um assoc reg args = Some text"
    and "validName (o_name type)"
  shows "declaredNamespace text = Some (o_name type @ ''Resolvers'')"
proof -
  from assms(1) obtain rest where
    "text = ''    export namespace '' @ (o_name type @ ''Resolvers'') @ '' {'' @ rest"
    unfolding ts_renderNamespace_def by (auto simp: bind_eq_Some_conv)
  moreover have "CHR '' '' \<notin> set (o_name type @ ''Resolvers'')"
    using validName_no_space [OF assms(2)] by simp
  ultimately show ?thesis
    using declaredNamespace_header by blast
qed

lemma sublist_join: "x \<in> set xs \<Longrightarrow> sublist x (join sep xs)"
proof (induction sep xs rule: join.induct)
  case (1 sep)
  then show ?case by simp
next
  case (2 sep y)
  then show ?case by simp
next
  case (3 sep y z zs)
  show ?case
  proof (cases "x = y")
    case True
    then show ?thesis by simp
  next
    case False
    with 3 have "sublist x (join sep (z # zs))" by simp
    then obtain ps ss where "join sep (z # zs) = ps @ x @ ss"
      by (auto simp: sublist_def)
    then have "join sep (y # z # zs) = (y @ sep @ ps) @ x @ ss" by simp
    then show ?thesis unfolding sublist_def by blast
  qed
qed

lemma toUpperCase_underscore: "toUpperCase c = CHR ''_'' \<longleftrightarrow> c = CHR ''_''"
  by (simp add: toUpperCase_def)

lemma upperFirst_no_underscore:
  "CHR ''_'' \<notin> set n \<Longrightarrow> CHR ''_'' \<notin> set (upperFirst n)"
proof (cases n)
  case Nil
  then show ?thesis by simp
next
  case (Cons c cs)
  assume "CHR ''_'' \<notin> set n"
  with Cons have "c \<noteq> CHR ''_''" "CHR ''_'' \<notin> set cs" by auto
  then have "toUpperCase c \<noteq> CHR ''_''" by (simp add: toUpperCase_underscore)
  with \<open>CHR ''_'' \<notin> set cs\<close> Cons show ?thesis by auto
qed

lemma takeWhile_upto:
  "c \<notin> set n \<Longrightarrow> takeWhile (\<lambda>x. x \<noteq> c) (n @ c # rest) = n"
  by (induction n) auto

lemma declaredInterface_indented_name:
  "CHR '' '' \<notin> set n \<Longrightarrow>
   declaredInterface (nl @ ''  export interface '' @ n @ '' '' @ rest) = Some n"
  by (simp add: declaredInterface_def takeWhile_name nl_def)

lemma ts_renderResolverTypeInterface_declares:
  assumes "ts_renderResolverTypeInterface cm type mm im um ctx interfaceName = Some out"
    and "CHR '' '' \<notin> set interfaceName"
  shows "declaredInterface out = Some interfaceName"
proof -
  from assms(1) obtain rest where
    "out = nl @ ''  export interface '' @ interfaceName @ '' '' @ rest"
    unfolding ts_renderResolverTypeInterface_def Let_def
    by (auto simp: bind_eq_Some_conv)
  with declaredInterface_indented_name [OF assms(2)] show ?thesis by blast
qed

lemma flow_renderResolverTypeInterface_declares:
  assumes "validName (o_name type)"
  shows "declaredInterface (flow_renderResolverTypeInterface cm type mm im um ctx)
           = Some (upperFirst (o_name type) @ ''_Resolvers'')"
proof -
  have "CHR '' '' \<notin> set (upperFirst (o_name type) @ ''_Resolvers'')"
    using upperFirst_no_space [OF assms] by simp
  from declaredInterface_indented_name [OF this] show ?thesis
    unfolding flow_renderResolverTypeInterface_def by simp
qed

lemma those_all_Some:
  "\<forall>x \<in> set xs. f x \<noteq> None \<Longrightarrow> \<exists>ys. those (map f xs) = Some ys"
  by (induction xs) auto

lemma getModelName_bound:
  "t_name t \<in> fst ` set mm \<Longrightarrow> getModelName t mm a = getModelName t mm b"
  by (auto simp: getModelName_def split: option.splits dest: map_of_eq_None_iff [THEN iffD1])





lemma validName_graphQLName: "validName n \<Longrightarrow> graphQLName n"
  by (simp add: validName_def graphQLName_def)




lemma registry_lookup_kind:
  assumes "distinct (inputTypeNames tys)" "input \<in> set tys" "isInput (o_type input)"
  shows "map_of (build_inputTypesMap tys) (o_name input) = Some input"
proof -
  from assms have "input \<in> set (filter (\<lambda>t. isInput (o_type t)) tys)" by simp
  with assms(1) show ?thesis
    unfolding build_inputTypesMap_def inputTypeNames_def
    using map_of_foldl_update [of o_name _ input "\<lambda>t. t"] by simp
qed

lemma association_property:
  assumes "distinct (objectTypeNames tys)" "type \<in> set tys" "isObject (o_type type)"
  shows "property (build_typeToInputTypeAssociation tys) (o_name type)
           = (if inputArgTypeNames type \<noteq> [] then Own (inputArgTypeNames type)
              else if o_name type \<in> set objectPrototypeKeys then Inherited else Undefined)"
proof -
  let ?p = "\<lambda>t. isObject (o_type t) \<and> inputArgTypeNames t \<noteq> []"
  let ?q = "\<lambda>t. inputArgTypeNames t \<noteq> []"
  let ?objs = "filter (\<lambda>t. isObject (o_type t)) tys"
  have build: "build_typeToInputTypeAssociation tys
      = foldl (\<lambda>acc t. AList.update (o_name t) (inputArgTypeNames t) acc) [] (filter ?p tys)"
    unfolding build_typeToInputTypeAssociation_def hasInputArgs_iff ..
  have split: "filter ?p tys = filter ?q ?objs"
    by (simp add: conj_commute)
  from assms(1) have d: "distinct (map o_name (filter ?p tys))"
    unfolding split objectTypeNames_def by (rule distinct_map_filter)
  have lookup: "map_of (build_typeToInputTypeAssociation tys) (o_name type)
           = (if inputArgTypeNames type = [] then None else Some (inputArgTypeNames type))"
  proof (cases "inputArgTypeNames type = []")
    case True
    have "o_name type \<notin> o_name ` set (filter ?p tys)"
    proof
      assume "o_name type \<in> o_name ` set (filter ?p tys)"
      then obtain t where t: "t \<in> set ?objs" "?q t" "o_name t = o_name type" by auto
      moreover from assms(2,3) have "type \<in> set ?objs" by simp
      ultimately have "t = type"
        using assms(1) unfolding objectTypeNames_def by (metis distinct_map inj_onD)
      with t True show False by simp
    qed
    from map_of_foldl_update_None [OF this, of inputArgTypeNames "[]"] True
    show ?thesis by (simp add: build)
  next
    case False
    with assms have "type \<in> set (filter ?p tys)" by simp
    with d show ?thesis using False
      by (simp add: build map_of_foldl_update)
  qed
  show ?thesis by (simp add: property_def lookup)
qed


lemma those_map_SomeD:
  "those (map f xs) = Some ys \<Longrightarrow> ys = map (\<lambda>x. the (f x)) xs \<and> (\<forall>x \<in> set xs. f x \<noteq> None)"
  by (induction xs arbitrary: ys) (auto split: option.splits)










lemma renderInputTypeInterfaces_inherited:
  assumes "distinct (objectTypeNames tys)"
    and "type \<in> set tys" and "isObject (o_type type)"
    and "inputArgTypeNames type = []" and "o_name type \<in> set objectPrototypeKeys"
  shows "ts_renderInputTypeInterfaces cm type mm im um
               (build_typeToInputTypeAssociation tys) reg = None
       \<and> flow_renderInputTypeInterfaces cm type mm im um
               (build_typeToInputTypeAssociation tys) reg = None"
  using association_property [OF assms(1-3)] assms(4,5)
  by (simp add: ts_renderInputTypeInterfaces_def flow_renderInputTypeInterfaces_def
      getDistinctInputTypes_def)











text \<open>A declaration that a text holds is found when the text is searched for declarations.\<close>

lemma declarationsIn_holds:
  assumes "keyword \<noteq> []" "CHR '' '' \<notin> set n"
  shows "n \<in> set (declarationsIn keyword (ps @ keyword @ n @ CHR '' '' # rest))"
proof (induction ps)
  case Nil
  from assms(1) obtain k ks where k: "keyword = k # ks" by (cases keyword) auto
  have "declarationsIn keyword (keyword @ n @ CHR '' '' # rest)
      = takeWhile (\<lambda>x. x \<noteq> CHR '' '') (n @ CHR '' '' # rest)
          # declarationsIn keyword (ks @ n @ CHR '' '' # rest)"
    unfolding k by simp
  with takeWhile_name [OF assms(2)] show ?case by simp
next
  case (Cons p ps)
  then show ?case by simp
qed

lemma interfaceNames_holds:
  assumes "sublist (pre @ ''export interface '' @ n @ CHR '' '' # rest) out"
    and "CHR '' '' \<notin> set n"
  shows "n \<in> set (interfaceNames out)"
proof -
  from assms(1) obtain ps ss where
    "out = ps @ (pre @ ''export interface '' @ n @ CHR '' '' # rest) @ ss"
    unfolding sublist_def by blast
  then have "out = (ps @ pre) @ ''export interface '' @ n @ CHR '' '' # (rest @ ss)" by simp
  with declarationsIn_holds [OF _ assms(2), of "''export interface ''" "ps @ pre" "rest @ ss"]
  show ?thesis unfolding interfaceNames_def by simp
qed

text \<open>The block of an object type, and its place in the generated text.\<close>

lemma those_map_member:
  assumes "those (map f xs) = Some ys" "x \<in> set xs"
  shows "\<exists>y. f x = Some y \<and> y \<in> set ys"
proof -
  from those_map_SomeD [OF assms(1)] have ys: "ys = map (\<lambda>x. the (f x)) xs"
    and some: "\<forall>x \<in> set xs. f x \<noteq> None" by blast+
  from some assms(2) obtain y where y: "f x = Some y" by auto
  with assms(2) have "y \<in> set ys" unfolding ys by force
  with y show ?thesis by blast
qed

lemma sublist_trans: "sublist a b \<Longrightarrow> sublist b c \<Longrightarrow> sublist a c"
  using sublist_order.order_trans by blast

lemma sublist_between: "sublist x (ps @ x @ ss)"
  unfolding sublist_def by blast

lemma ts_renderNamespace_text:
  assumes "ts_renderNamespace cm type im um assoc reg args = Some out"
  shows "\<exists>inputTypeInterfaces resolverTypeInterface.
           ts_renderInputTypeInterfaces cm type (g_modelMap args) im um assoc reg
             = Some inputTypeInterfaces
         \<and> ts_renderResolverTypeInterface cm type (g_modelMap args) im um (g_context args)
               ''Type'' = Some resolverTypeInterface
         \<and> out = ''    export namespace '' @ o_name type @ ''Resolvers {'' @ nl
             @ nl
             @ ''    '' @ renderDefaultResolvers type args ''defaultResolvers'' @ nl
             @ nl
             @ ''    '' @ inputTypeInterfaces @ nl
             @ nl
             @ ''    '' @ ts_renderInputArgInterfaces cm type (g_modelMap args) im um @ nl
             @ nl
             @ ''    ''
             @ ts_renderResolverFunctionInterfaces cm type (g_modelMap args) im um
                 (g_context args) @ nl
             @ nl
             @ ''    '' @ resolverTypeInterface @ nl
             @ nl
             @ ''    '' @ nl
             @ ''  }'' @ nl
             @ ''  ''"
  using assms unfolding ts_renderNamespace_def by (auto simp: bind_eq_Some_conv)

lemma flow_renderNamespace_text:
  assumes "flow_renderNamespace cm type im um assoc reg args = Some out"
  shows "\<exists>inputTypeInterfaces.
           flow_renderInputTypeInterfaces cm type (g_modelMap args) im um assoc reg
             = Some inputTypeInterfaces
         \<and> out = ''    // Types for '' @ upperFirst (o_name type) @ nl
             @ ''    ''
             @ (if g_defaultResolversEnabled args
                then renderDefaultResolvers type args
                       (upperFirst (o_name type) @ ''_defaultResolvers'')
                else [])
             @ nl
             @ nl
             @ ''    '' @ inputTypeInterfaces @ nl
             @ nl
             @ ''    '' @ flow_renderInputArgInterfaces cm type (g_modelMap args) im um @ nl
             @ nl
             @ ''    ''
             @ flow_renderResolverFunctionInterfaces cm type (g_modelMap args) im um
                 (g_context args) @ nl
             @ nl
             @ ''    ''
             @ flow_renderResolverTypeInterface cm type (g_modelMap args) im um (g_context args)
             @ nl
             @ nl
             @ ''    '' @ nl
             @ ''  ''"
  using assms unfolding flow_renderNamespace_def Let_def by (auto simp: bind_eq_Some_conv)

lemma ts_generate_holds_namespace:
  assumes "ts_generate cm args = Some out"
    and "type \<in> set (g_types args)" and "isObject (o_type type)"
  shows "\<exists>block.
           ts_renderNamespace cm type (build_interfacesMap (g_interfaces args))
               (build_unionsMap (g_unions args))
               (build_typeToInputTypeAssociation (g_types args))
               (build_inputTypesMap (g_types args)) args = Some block
         \<and> sublist block out"
proof -
  let ?im = "build_interfacesMap (g_interfaces args)"
  let ?um = "build_unionsMap (g_unions args)"
  let ?assoc = "build_typeToInputTypeAssociation (g_types args)"
  let ?reg = "build_inputTypesMap (g_types args)"
  let ?f = "\<lambda>type. ts_renderNamespace cm type ?im ?um ?assoc ?reg args"
  from assms(1) obtain namespaces ps ss where
    ns: "ts_renderNamespaces cm args ?im ?um ?assoc ?reg = Some namespaces"
    and out: "out = ps @ namespaces @ ss"
    unfolding ts_generate_def Let_def
    by (auto simp: bind_eq_Some_conv intro: that [where ps = "''  '' @ ts_renderHeader cm args @ nl
          @ ''  '' @ nl @ ''  '' @ renderEnums cm args @ nl @ nl @ ''  ''"])
  from ns obtain objectNamespaces ss' where
    ons: "ts_renderObjectNamespaces cm args ?im ?um ?assoc ?reg = Some objectNamespaces"
    and nss: "namespaces = ''    '' @ objectNamespaces @ ss'"
    unfolding ts_renderNamespaces_def by (auto simp: bind_eq_Some_conv)
  from ons obtain blocks where
    bs: "those (map ?f (filter (\<lambda>type. isObject (o_type type)) (g_types args))) = Some blocks"
    and j: "objectNamespaces = join EOL blocks"
    unfolding ts_renderObjectNamespaces_def by auto
  from assms(2,3) have "type \<in> set (filter (\<lambda>type. isObject (o_type type)) (g_types args))"
    by simp
  from those_map_member [OF bs this] obtain block where
    block: "?f type = Some block" "block \<in> set blocks" by blast
  from block(2) have "sublist block objectNamespaces" unfolding j by (rule sublist_join)
  also have "sublist objectNamespaces namespaces" unfolding nss by (rule sublist_between)
  also have "sublist namespaces out" unfolding out by (rule sublist_between)
  finally have "sublist block out" .
  with block(1) show ?thesis by blast
qed

lemma flow_generate_holds_namespace:
  assumes "flow_generate cm args = Some out"
    and "type \<in> set (g_types args)" and "isObject (o_type type)"
  shows "\<exists>block.
           flow_renderNamespace cm type (createInterfacesMap cm (g_interfaces args))
               (createUnionsMap cm (g_unions args))
               (build_typeToInputTypeAssociation (g_types args))
               (build_inputTypesMap (g_types args)) args = Some block
         \<and> sublist block out"
proof -
  let ?im = "createInterfacesMap cm (g_interfaces args)"
  let ?um = "createUnionsMap cm (g_unions args)"
  let ?assoc = "build_typeToInputTypeAssociation (g_types args)"
  let ?reg = "build_inputTypesMap (g_types args)"
  let ?f = "\<lambda>type. flow_renderNamespace cm type ?im ?um ?assoc ?reg args"
  from assms(1) obtain namespaces ps ss where
    ns: "flow_renderNamespaces cm args ?im ?um ?assoc ?reg = Some namespaces"
    and out: "out = ps @ namespaces @ ss"
    unfolding flow_generate_def Let_def
    by (auto simp: bind_eq_Some_conv intro: that [where ps = "''  '' @ flow_renderHeader cm args @ nl
          @ nl @ ''  '' @ renderEnums cm args @ nl @ nl @ ''  ''"])
  from ns obtain blocks ss' where
    bs: "those (map ?f (filter (\<lambda>type. isObject (o_type type)) (g_types args))) = Some blocks"
    and nss: "namespaces = ''    '' @ join EOL blocks @ ss'"
    unfolding flow_renderNamespaces_def by (auto simp: bind_eq_Some_conv)
  from assms(2,3) have "type \<in> set (filter (\<lambda>type. isObject (o_type type)) (g_types args))"
    by simp
  from those_map_member [OF bs this] obtain block where
    block: "?f type = Some block" "block \<in> set blocks" by blast
  from block(2) have "sublist block (join EOL blocks)" by (rule sublist_join)
  also have "sublist (join EOL blocks) namespaces" unfolding nss by (rule sublist_between)
  also have "sublist namespaces out" unfolding out by (rule sublist_between)
  finally have "sublist block out" .
  with block(1) show ?thesis by blast
qed

section \<open>Input types of an object type\<close>




section \<open>Resolvers of subscription fields\<close>

lemma validName_no_eq: "validName n \<Longrightarrow> CHR ''='' \<notin> set n"
  using validName_chars [of n "CHR ''=''"] by (auto simp: nameChars_def)

lemma upperFirst_no_eq: "validName n \<Longrightarrow> CHR ''='' \<notin> set (upperFirst n)"
  using upperFirst_chars [of n "CHR ''=''"] by (auto simp: nameChars_def)

lemma typeAliasBody_export:
  assumes "CHR ''='' \<notin> set n" "CHR ''='' \<notin> set ind"
  shows "typeAliasBody (nl @ ind @ ''export type '' @ n @ '' = '' @ rest)
           = dropWhile (\<lambda>c. c = CHR '' '' \<or> c = CHR 0x0A) rest"
proof -
  have "dropWhile (\<lambda>c. c \<noteq> CHR ''='') ((nl @ ind @ ''export type '' @ n @ '' '') @ CHR ''='' # CHR '' '' # rest)
      = CHR ''='' # CHR '' '' # rest"
    using assms by (subst dropWhile_append2) (auto simp: nl_def)
  then show ?thesis by (simp add: typeAliasBody_def)
qed

lemma ts_shape:
  assumes "validName (f_name field)"
  shows "resolverShape (ts_renderResolverFunctionInterface cm field type mm im um ctx)
     = Some (if o_name type = ''Subscription'' then TwoFunctions else OneFunction)"
proof -
  have n: "CHR ''='' \<notin> set (upperFirst (f_name field) @ ''Resolver'')"
    using upperFirst_no_eq [OF assms] by simp
  show ?thesis
  proof (cases "o_name type = ''Subscription''")
    case True
    then show ?thesis
      using typeAliasBody_export [OF n, of "''    ''"]
      by (simp add: ts_renderResolverFunctionInterface_def Let_def resolverShape_def)
  next
    case False
    then show ?thesis
      using typeAliasBody_export [OF n, of "''  ''"]
      by (simp add: ts_renderResolverFunctionInterface_def Let_def resolverShape_def
          ts_resolverDefinition_def nl_def)
  qed
qed

lemma flow_shape:
  assumes "validName (f_name field)" "validName (o_name type)"
  shows "resolverShape (flow_renderResolverFunctionInterface cm field type mm im um ctx)
     = Some (if o_name type = ''Subscription'' then TwoFunctions else OneFunction)"
proof -
  have n: "CHR ''='' \<notin> set (upperFirst (o_name type) @ ''_'' @ upperFirst (f_name field) @ ''_Resolver'')"
    using upperFirst_no_eq [OF assms(1)] upperFirst_no_eq [OF assms(2)] by simp
  show ?thesis
  proof (cases "o_name type = ''Subscription''")
    case True
    then show ?thesis
      using typeAliasBody_export [OF n, of "''    ''"]
      by (simp add: flow_renderResolverFunctionInterface_def Let_def resolverShape_def)
  next
    case False
    then show ?thesis
      using typeAliasBody_export [OF n, of "''  ''"]
      by (simp add: flow_renderResolverFunctionInterface_def Let_def resolverShape_def
          flow_resolverDefinition_def nl_def)
  qed
qed

text \<open>
  Claim C3. For a field of the type named \<open>Subscription\<close> both dialects declare the
  resolver as an object of two functions, a required \<open>subscribe\<close> that returns an
  \<open>AsyncIterator\<close> (or the promise of one) and an optional \<open>resolve\<close>; for a field
  of any other object type they declare a single function from the resolver parameters
  to the result. Read back from the text, the declared alias opens an object type in the
  first case and a parameter list in the second.
\<close>

theorem subscription_fields_take_two_functions:
  "(o_name type = ''Subscription'' \<longrightarrow>
      ts_renderResolverFunctionInterface cm field type mm im um ctx =
        nl
        @ ''    export type '' @ upperFirst (f_name field) @ ''Resolver'' @ '' = {'' @ nl
        @ ''      subscribe: ''
        @ ts_resolverDefinition cm (getModelName (o_type type) mm ''undefined'') field ctx
        @ '' => AsyncIterator<'' @ printFieldLikeType cm field mm im um False
        @ ''> | Promise<AsyncIterator<'' @ printFieldLikeType cm field mm im um False @ ''>>''
        @ nl
        @ ''      resolve?: ''
        @ ts_resolverDefinition cm (getModelName (o_type type) mm ''undefined'') field ctx
        @ '' => '' @ printFieldLikeType cm field mm im um False
        @ '' | Promise<'' @ printFieldLikeType cm field mm im um False @ ''>'' @ nl
        @ ''    }'' @ nl
        @ ''    ''
    \<and> flow_renderResolverFunctionInterface cm field type mm im um ctx =
        nl
        @ ''    export type ''
        @ upperFirst (o_name type) @ ''_'' @ upperFirst (f_name field) @ ''_Resolver''
        @ '' = {|'' @ nl
        @ ''      subscribe: '' @ flow_resolverDefinition cm type field mm ctx @ nl @ ''  ''
        @ '' => AsyncIterator<'' @ printFieldLikeType cm field mm im um True
        @ ''> | Promise<AsyncIterator<'' @ printFieldLikeType cm field mm im um True @ ''>>,''
        @ nl
        @ ''      resolve?: '' @ flow_resolverDefinition cm type field mm ctx @ nl @ ''  ''
        @ '' => '' @ resolverReturnType cm (printFieldLikeType cm field mm im um True) @ nl
        @ ''    |}'' @ nl
        @ ''    '')
   \<and> (o_name type \<noteq> ''Subscription'' \<longrightarrow>
      ts_renderResolverFunctionInterface cm field type mm im um ctx =
        nl
        @ ''  export type '' @ upperFirst (f_name field) @ ''Resolver'' @ '' = ''
        @ ts_resolverDefinition cm (getModelName (o_type type) mm ''undefined'') field ctx
        @ '' => '' @ printFieldLikeType cm field mm im um False
        @ '' | Promise<'' @ printFieldLikeType cm field mm im um False @ ''>'' @ nl
        @ ''  ''
    \<and> flow_renderResolverFunctionInterface cm field type mm im um ctx =
        nl
        @ ''  export type ''
        @ upperFirst (o_name type) @ ''_'' @ upperFirst (f_name field) @ ''_Resolver''
        @ '' = '' @ flow_resolverDefinition cm type field mm ctx @ nl @ ''  ''
        @ '' => '' @ resolverReturnType cm (printFieldLikeType cm field mm im um True) @ nl
        @ ''  '')
   \<and> (validName (o_name type) \<and> validName (f_name field) \<longrightarrow>
      resolverShape (ts_renderResolverFunctionInterface cm field type mm im um ctx)
        = Some (if o_name type = ''Subscription'' then TwoFunctions else OneFunction)
    \<and> resolverShape (flow_renderResolverFunctionInterface cm field type mm im um ctx)
        = Some (if o_name type = ''Subscription'' then TwoFunctions else OneFunction))"
proof (intro conjI impI)
  assume "o_name type = ''Subscription''"
  then show "ts_renderResolverFunctionInterface cm field type mm im um ctx =
        nl
        @ ''    export type '' @ upperFirst (f_name field) @ ''Resolver'' @ '' = {'' @ nl
        @ ''      subscribe: ''
        @ ts_resolverDefinition cm (getModelName (o_type type) mm ''undefined'') field ctx
        @ '' => AsyncIterator<'' @ printFieldLikeType cm field mm im um False
        @ ''> | Promise<AsyncIterator<'' @ printFieldLikeType cm field mm im um False @ ''>>''
        @ nl
        @ ''      resolve?: ''
        @ ts_resolverDefinition cm (getModelName (o_type type) mm ''undefined'') field ctx
        @ '' => '' @ printFieldLikeType cm field mm im um False
        @ '' | Promise<'' @ printFieldLikeType cm field mm im um False @ ''>'' @ nl
        @ ''    }'' @ nl
        @ ''    ''"
    by (simp add: ts_renderResolverFunctionInterface_def Let_def)
next
  assume "o_name type = ''Subscription''"
  then show "flow_renderResolverFunctionInterface cm field type mm im um ctx =
        nl
        @ ''    export type ''
        @ upperFirst (o_name type) @ ''_'' @ upperFirst (f_name field) @ ''_Resolver''
        @ '' = {|'' @ nl
        @ ''      subscribe: '' @ flow_resolverDefinition cm type field mm ctx @ nl @ ''  ''
        @ '' => AsyncIterator<'' @ printFieldLikeType cm field mm im um True
        @ ''> | Promise<AsyncIterator<'' @ printFieldLikeType cm field mm im um True @ ''>>,''
        @ nl
        @ ''      resolve?: '' @ flow_resolverDefinition cm type field mm ctx @ nl @ ''  ''
        @ '' => '' @ resolverReturnType cm (printFieldLikeType cm field mm im um True) @ nl
        @ ''    |}'' @ nl
        @ ''    ''"
    by (simp add: flow_renderResolverFunctionInterface_def Let_def)
next
  assume "o_name type \<noteq> ''Subscription''"
  then show "ts_renderResolverFunctionInterface cm field type mm im um ctx =
        nl
        @ ''  export type '' @ upperFirst (f_name field) @ ''Resolver'' @ '' = ''
        @ ts_resolverDefinition cm (getModelName (o_type type) mm ''undefined'') field ctx
        @ '' => '' @ printFieldLikeType cm field mm im um False
        @ '' | Promise<'' @ printFieldLikeType cm field mm im um False @ ''>'' @ nl
        @ ''  ''"
    by (simp add: ts_renderResolverFunctionInterface_def Let_def)
next
  assume "o_name type \<noteq> ''Subscription''"
  then show "flow_renderResolverFunctionInterface cm field type mm im um ctx =
        nl
        @ ''  export type ''
        @ upperFirst (o_name type) @ ''_'' @ upperFirst (f_name field) @ ''_Resolver''
        @ '' = '' @ flow_resolverDefinition cm type field mm ctx @ nl @ ''  ''
        @ '' => '' @ resolverReturnType cm (printFieldLikeType cm field mm im um True) @ nl
        @ ''  ''"
    by (simp add: flow_renderResolverFunctionInterface_def Let_def)
next
  assume "validName (o_name type) \<and> validName (f_name field)"
  then show "resolverShape (ts_renderResolverFunctionInterface cm field type mm im um ctx)
        = Some (if o_name type = ''Subscription'' then TwoFunctions else OneFunction)"
    by (simp only: ts_shape)
next
  assume "validName (o_name type) \<and> validName (f_name field)"
  then show "resolverShape (flow_renderResolverFunctionInterface cm field type mm im um ctx)
        = Some (if o_name type = ''Subscription'' then TwoFunctions else OneFunction)"
    by (simp only: flow_shape)
qed

theorem subscription_fields_take_two_functions_witness:
  "o_name exSubscription = ''Subscription''
   \<and> validName (o_name exSubscription) \<and> validName (f_name exUserAddedField)
   \<and> resolverShape (ts_renderResolverFunctionInterface exampleCommon exUserAddedField
         exSubscription [] [] [] None) = Some TwoFunctions
   \<and> resolverShape (flow_renderResolverFunctionInterface exampleCommon exUserAddedField
         exSubscription [] [] [] None) = Some TwoFunctions
   \<and> o_name exUser \<noteq> ''Subscription''
   \<and> validName (o_name exUser) \<and> validName (f_name exIdField)
   \<and> resolverShape (ts_renderResolverFunctionInterface exampleCommon exIdField
         exUser [] [] [] None) = Some OneFunction
   \<and> resolverShape (flow_renderResolverFunctionInterface exampleCommon exIdField
         exUser [] [] [] None) = Some OneFunction
   \<and> ts_renderResolverFunctionInterface exampleCommon exIdField exUser [] [] [] None =
        nl
        @ ''  export type IdResolver = '' @ nl
        @ ''  ('' @ nl
        @ ''    parent: undefined,'' @ nl
        @ ''    args: {},'' @ nl
        @ ''    ctx: Context,'' @ nl
        @ ''    info: GraphQLResolveInfo,'' @ nl
        @ ''  )'' @ nl
        @ ''   => ID | Promise<ID>'' @ nl
        @ ''  ''"
proof -
  have s1: "o_name exSubscription = ''Subscription''"
    by (simp add: exSubscription_def)
  have s2: "validName (o_name exSubscription) \<and> validName (f_name exUserAddedField)"
    by (simp add: exSubscription_def exUserAddedField_def validName_def nameChars_def objectPrototypeKeys_def)
  have u1: "o_name exUser \<noteq> ''Subscription''"
    by (simp add: exUser_def)
  have u2: "validName (o_name exUser) \<and> validName (f_name exIdField)"
    by (simp add: exUser_def exIdField_def validName_def nameChars_def objectPrototypeKeys_def)
  note sub = subscription_fields_take_two_functions
    [of exSubscription exampleCommon exUserAddedField "[]" "[]" "[]" None]
  note usr = subscription_fields_take_two_functions
    [of exUser exampleCommon exIdField "[]" "[]" "[]" None]
  have out: "ts_renderResolverFunctionInterface exampleCommon exIdField exUser [] [] [] None =
        nl
        @ ''  export type IdResolver = '' @ nl
        @ ''  ('' @ nl
        @ ''    parent: undefined,'' @ nl
        @ ''    args: {},'' @ nl
        @ ''    ctx: Context,'' @ nl
        @ ''    info: GraphQLResolveInfo,'' @ nl
        @ ''  )'' @ nl
        @ ''   => ID | Promise<ID>'' @ nl
        @ ''  ''"
    using usr u1
    by (simp add: ts_resolverDefinition_def getModelName_def exampleCommon_def exIdField_def
        exUser_def namedType_def toUpperCase_def)
  have "resolverShape (ts_renderResolverFunctionInterface exampleCommon exUserAddedField
         exSubscription [] [] [] None)
       = Some (if o_name exSubscription = ''Subscription'' then TwoFunctions else OneFunction)
     \<and> resolverShape (flow_renderResolverFunctionInterface exampleCommon exUserAddedField
         exSubscription [] [] [] None)
       = Some (if o_name exSubscription = ''Subscription'' then TwoFunctions else OneFunction)"
    using sub s2 by blast
  then have shapeS:
    "resolverShape (ts_renderResolverFunctionInterface exampleCommon exUserAddedField
         exSubscription [] [] [] None) = Some TwoFunctions
     \<and> resolverShape (flow_renderResolverFunctionInterface exampleCommon exUserAddedField
         exSubscription [] [] [] None) = Some TwoFunctions"
    using s1 by simp
  have "resolverShape (ts_renderResolverFunctionInterface exampleCommon exIdField
         exUser [] [] [] None)
       = Some (if o_name exUser = ''Subscription'' then TwoFunctions else OneFunction)
     \<and> resolverShape (flow_renderResolverFunctionInterface exampleCommon exIdField
         exUser [] [] [] None)
       = Some (if o_name exUser = ''Subscription'' then TwoFunctions else OneFunction)"
    using usr u2 by blast
  then have shapeU:
    "resolverShape (ts_renderResolverFunctionInterface exampleCommon exIdField
         exUser [] [] [] None) = Some OneFunction
     \<and> resolverShape (flow_renderResolverFunctionInterface exampleCommon exIdField
         exUser [] [] [] None) = Some OneFunction"
    using u1 by simp
  from s1 s2 u1 u2 shapeS shapeU out show ?thesis by (intro conjI) blast+
qed

section \<open>The aggregate resolver map\<close>

lemma validName_no_colon: "validName n \<Longrightarrow> CHR '':'' \<notin> set n"
  using validName_chars [of n "CHR '':''"] by (auto simp: nameChars_def)

lemma validName_no_question: "validName n \<Longrightarrow> CHR ''?'' \<notin> set n"
  using validName_chars [of n "CHR ''?''"] by (auto simp: nameChars_def)

lemma key_scan:
  assumes "CHR '':'' \<notin> set n" "CHR ''?'' \<notin> set n"
  shows "takeWhile (\<lambda>c. c \<noteq> CHR '':'' \<and> c \<noteq> CHR ''?'') (n @ rest)
           = n @ takeWhile (\<lambda>c. c \<noteq> CHR '':'' \<and> c \<noteq> CHR ''?'') rest"
    and "dropWhile (\<lambda>c. c \<noteq> CHR '':'' \<and> c \<noteq> CHR ''?'') (n @ rest)
           = dropWhile (\<lambda>c. c \<noteq> CHR '':'' \<and> c \<noteq> CHR ''?'') rest"
  using assms by (induction n) auto

lemma colon_scan:
  assumes "CHR '':'' \<notin> set n"
  shows "dropWhile (\<lambda>c. c \<noteq> CHR '':'') (n @ rest) = dropWhile (\<lambda>c. c \<noteq> CHR '':'') rest"
  using assms by (induction n) auto

lemma entry_required:
  assumes "validName n"
  shows "entryKey (n @ CHR '':'' # CHR '' '' # target) = n"
    and "\<not> entryOptional (n @ CHR '':'' # CHR '' '' # target)"
    and "entryTarget (n @ CHR '':'' # CHR '' '' # target) = target"
  using validName_no_colon [OF assms] validName_no_question [OF assms]
  by (simp_all add: entryKey_def entryOptional_def entryTarget_def key_scan colon_scan)

lemma entry_optional:
  assumes "validName n"
  shows "entryKey (n @ CHR ''?'' # CHR '':'' # CHR '' '' # target) = n"
    and "entryOptional (n @ CHR ''?'' # CHR '':'' # CHR '' '' # target)"
    and "entryTarget (n @ CHR ''?'' # CHR '':'' # CHR '' '' # target) = target"
  using validName_no_colon [OF assms] validName_no_question [OF assms]
  by (simp_all add: entryKey_def entryOptional_def entryTarget_def key_scan colon_scan)

text \<open>
  Claim C5. The entries of the aggregate \<open>Resolvers\<close> declaration are, in both
  dialects, one per object type, then one per interface, then one per union, and
  nothing else (names well-formed). Read back from the text, the key of each entry is
  the name of its type; the entry of an object type is not marked optional and refers
  to the resolver-shape declaration of the type (\<open>Type\<close> in the namespace of the type
  in TypeScript, the interface \<open>Name_Resolvers\<close> in Flow, as these declarations are
  named where they are rendered); the entry of an interface or a union is marked
  optional.
\<close>

theorem resolvers_map_has_one_entry_per_type:
  assumes "\<forall>t \<in> set (g_types args). validName (o_name t)"
    and "\<forall>i \<in> set (g_interfaces args). validName (i_name i)"
    and "\<forall>u \<in> set (g_unions args). validName (u_name u)"
  shows "map entryKey (ts_resolversEntries args)
           = map o_name (filter (\<lambda>t. isObject (o_type t)) (g_types args))
             @ map i_name (g_interfaces args) @ map u_name (g_unions args)
       \<and> map entryOptional (ts_resolversEntries args)
           = map (\<lambda>t. False) (filter (\<lambda>t. isObject (o_type t)) (g_types args))
             @ map (\<lambda>i. True) (g_interfaces args) @ map (\<lambda>u. True) (g_unions args)
       \<and> map entryTarget (ts_resolversEntries args)
           = map (\<lambda>t. o_name t @ ''Resolvers.Type'')
               (filter (\<lambda>t. isObject (o_type t)) (g_types args))
             @ map (\<lambda>i. i_name i @ ''Resolvers.Type'') (g_interfaces args)
             @ map (\<lambda>u. u_name u @ ''Resolvers.Type'') (g_unions args)
       \<and> map entryKey (flow_resolversEntries args)
           = map o_name (filter (\<lambda>t. isObject (o_type t)) (g_types args))
             @ map i_name (g_interfaces args) @ map u_name (g_unions args)
       \<and> map entryOptional (flow_resolversEntries args)
           = map (\<lambda>t. False) (filter (\<lambda>t. isObject (o_type t)) (g_types args))
             @ map (\<lambda>i. True) (g_interfaces args) @ map (\<lambda>u. True) (g_unions args)
       \<and> map entryTarget (flow_resolversEntries args)
           = map (\<lambda>t. upperFirst (o_name t) @ ''_Resolvers'')
               (filter (\<lambda>t. isObject (o_type t)) (g_types args))
             @ map (\<lambda>i. upperFirst (i_name i) @ ''_Resolvers'') (g_interfaces args)
             @ map (\<lambda>u. upperFirst (u_name u) @ ''_Resolvers'') (g_unions args)
       \<and> ts_renderResolvers args
           = ''export interface Resolvers {'' @ nl
             @ ''  '' @ join EOL (ts_resolversEntries args) @ nl
             @ ''}'' @ nl @ ''  ''
       \<and> flow_renderResolvers args
           = nl @ ''export interface Resolvers {'' @ nl
             @ ''  '' @ join ('','' @ EOL) (flow_resolversEntries args) @ nl
             @ ''}'' @ nl @ ''  ''
       \<and> (\<forall>t \<in> set (filter (\<lambda>t. isObject (o_type t)) (g_types args)).
             (\<forall>out. ts_renderNamespace cm t im um assoc reg args = Some out \<longrightarrow>
                declaredNamespace out = Some (o_name t @ ''Resolvers''))
           \<and> (\<forall>out. ts_renderResolverTypeInterface cm t (g_modelMap args) im um
                       (g_context args) ''Type'' = Some out \<longrightarrow>
                declaredInterface out = Some ''Type'')
           \<and> declaredInterface
                (flow_renderResolverTypeInterface cm t (g_modelMap args) im um (g_context args))
               = Some (upperFirst (o_name t) @ ''_Resolvers''))"
proof -
  let ?objs = "filter (\<lambda>t. isObject (o_type t)) (g_types args)"
  have o: "\<forall>t \<in> set ?objs. validName (o_name t)" using assms(1) by simp
  have k1: "map entryKey (ts_resolversEntries args)
      = map o_name ?objs @ map i_name (g_interfaces args) @ map u_name (g_unions args)"
    using o assms(2,3)
    by (simp add: ts_resolversEntries_def entry_required entry_optional)
  have k2: "map entryOptional (ts_resolversEntries args)
      = map (\<lambda>t. False) ?objs @ map (\<lambda>i. True) (g_interfaces args)
        @ map (\<lambda>u. True) (g_unions args)"
    using o assms(2,3)
    by (simp add: ts_resolversEntries_def entry_required entry_optional)
  have k3: "map entryTarget (ts_resolversEntries args)
      = map (\<lambda>t. o_name t @ ''Resolvers.Type'') ?objs
        @ map (\<lambda>i. i_name i @ ''Resolvers.Type'') (g_interfaces args)
        @ map (\<lambda>u. u_name u @ ''Resolvers.Type'') (g_unions args)"
    using o assms(2,3)
    by (simp add: ts_resolversEntries_def entry_required entry_optional)
  have f1: "map entryKey (flow_resolversEntries args)
      = map o_name ?objs @ map i_name (g_interfaces args) @ map u_name (g_unions args)"
    using o assms(2,3)
    by (simp add: flow_resolversEntries_def entry_required entry_optional)
  have f2: "map entryOptional (flow_resolversEntries args)
      = map (\<lambda>t. False) ?objs @ map (\<lambda>i. True) (g_interfaces args)
        @ map (\<lambda>u. True) (g_unions args)"
    using o assms(2,3)
    by (simp add: flow_resolversEntries_def entry_required entry_optional)
  have f3: "map entryTarget (flow_resolversEntries args)
      = map (\<lambda>t. upperFirst (o_name t) @ ''_Resolvers'') ?objs
        @ map (\<lambda>i. upperFirst (i_name i) @ ''_Resolvers'') (g_interfaces args)
        @ map (\<lambda>u. upperFirst (u_name u) @ ''_Resolvers'') (g_unions args)"
    using o assms(2,3)
    by (simp add: flow_resolversEntries_def entry_required entry_optional)
  have r1: "ts_renderResolvers args
      = ''export interface Resolvers {'' @ nl
        @ ''  '' @ join EOL (ts_resolversEntries args) @ nl
        @ ''}'' @ nl @ ''  ''"
    by (simp add: ts_renderResolvers_def)
  have r2: "flow_renderResolvers args
      = nl @ ''export interface Resolvers {'' @ nl
        @ ''  '' @ join ('','' @ EOL) (flow_resolversEntries args) @ nl
        @ ''}'' @ nl @ ''  ''"
    by (simp add: flow_renderResolvers_def)
  have d: "\<forall>t \<in> set ?objs.
             (\<forall>out. ts_renderNamespace cm t im um assoc reg args = Some out \<longrightarrow>
                declaredNamespace out = Some (o_name t @ ''Resolvers''))
           \<and> (\<forall>out. ts_renderResolverTypeInterface cm t (g_modelMap args) im um
                       (g_context args) ''Type'' = Some out \<longrightarrow>
                declaredInterface out = Some ''Type'')
           \<and> declaredInterface
                (flow_renderResolverTypeInterface cm t (g_modelMap args) im um (g_context args))
               = Some (upperFirst (o_name t) @ ''_Resolvers'')"
  proof (intro ballI conjI allI impI)
    fix t out
    assume "t \<in> set ?objs"
      and "ts_renderNamespace cm t im um assoc reg args = Some out"
    with o show "declaredNamespace out = Some (o_name t @ ''Resolvers'')"
      using ts_renderNamespace_declares by blast
  next
    fix t out
    assume "ts_renderResolverTypeInterface cm t (g_modelMap args) im um
              (g_context args) ''Type'' = Some out"
    then show "declaredInterface out = Some ''Type''"
      by (rule ts_renderResolverTypeInterface_declares) simp
  next
    fix t
    assume "t \<in> set ?objs"
    with o have "validName (o_name t)" by blast
    then show "declaredInterface
        (flow_renderResolverTypeInterface cm t (g_modelMap args) im um (g_context args))
       = Some (upperFirst (o_name t) @ ''_Resolvers'')"
      by (rule flow_renderResolverTypeInterface_declares)
  qed
  from k1 k2 k3 f1 f2 f3 r1 r2 d show ?thesis by (intro conjI)
qed

theorem resolvers_map_has_one_entry_per_type_witness:
  "list_all (\<lambda>t. validName (o_name t)) (g_types exFullArgs)
   \<and> list_all (\<lambda>i. validName (i_name i)) (g_interfaces exFullArgs)
   \<and> list_all (\<lambda>u. validName (u_name u)) (g_unions exFullArgs)
   \<and> map entryKey (ts_resolversEntries exFullArgs)
       = [''Query'', ''User'', ''Post'', ''Comment'', ''Node'', ''SearchResult'']
   \<and> map entryOptional (ts_resolversEntries exFullArgs)
       = [False, False, False, False, True, True]
   \<and> map entryTarget (ts_resolversEntries exFullArgs)
       = [''QueryResolvers.Type'', ''UserResolvers.Type'', ''PostResolvers.Type'',
          ''CommentResolvers.Type'', ''NodeResolvers.Type'', ''SearchResultResolvers.Type'']
   \<and> map entryKey (flow_resolversEntries exFullArgs)
       = [''Query'', ''User'', ''Post'', ''Comment'', ''Node'', ''SearchResult'']
   \<and> map entryOptional (flow_resolversEntries exFullArgs)
       = [False, False, False, False, True, True]
   \<and> map entryTarget (flow_resolversEntries exFullArgs)
       = [''Query_Resolvers'', ''User_Resolvers'', ''Post_Resolvers'', ''Comment_Resolvers'',
          ''Node_Resolvers'', ''SearchResult_Resolvers'']
   \<and> exPost \<in> set (filter (\<lambda>t. isObject (o_type t)) (g_types exFullArgs))
   \<and> (\<exists>out. ts_renderNamespace exampleCommon exPost
                 (build_interfacesMap (g_interfaces exFullArgs))
                 (build_unionsMap (g_unions exFullArgs))
                 (build_typeToInputTypeAssociation (g_types exFullArgs))
                 (build_inputTypesMap (g_types exFullArgs)) exFullArgs = Some out
             \<and> declaredNamespace out = Some (o_name exPost @ ''Resolvers''))
   \<and> (\<exists>out. ts_renderResolverTypeInterface exampleCommon exPost (g_modelMap exFullArgs)
                 (build_interfacesMap (g_interfaces exFullArgs))
                 (build_unionsMap (g_unions exFullArgs)) (g_context exFullArgs) ''Type''
               = Some out
             \<and> declaredInterface out = Some ''Type'')
   \<and> declaredInterface
         (flow_renderResolverTypeInterface exampleCommon exPost (g_modelMap exFullArgs)
            (build_interfacesMap (g_interfaces exFullArgs))
            (build_unionsMap (g_unions exFullArgs)) (g_context exFullArgs))
       = Some (upperFirst (o_name exPost) @ ''_Resolvers'')"
proof -
  have h1: "\<forall>t \<in> set (g_types exFullArgs). validName (o_name t)"
    by (simp add: ex_full_defs ex_defs validName_def nameChars_def objectPrototypeKeys_def)
  have h2: "\<forall>i \<in> set (g_interfaces exFullArgs). validName (i_name i)"
    by (simp add: ex_full_defs validName_def nameChars_def objectPrototypeKeys_def)
  have h3: "\<forall>u \<in> set (g_unions exFullArgs). validName (u_name u)"
    by (simp add: ex_full_defs validName_def nameChars_def objectPrototypeKeys_def)
  note main = resolvers_map_has_one_entry_per_type
    [OF h1 h2 h3, where cm = exampleCommon
       and im = "build_interfacesMap (g_interfaces exFullArgs)"
       and um = "build_unionsMap (g_unions exFullArgs)"
       and assoc = "build_typeToInputTypeAssociation (g_types exFullArgs)"
       and reg = "build_inputTypesMap (g_types exFullArgs)"]
  note rest = conjunct2 [OF conjunct2 [OF conjunct2]]
  have objs: "filter (\<lambda>t. isObject (o_type t)) (g_types exFullArgs)
      = [exQuery, exUser, exPost, exComment]"
    by (simp add: ex_full_defs ex_defs)
  have names: "o_name exQuery = ''Query''" "o_name exUser = ''User''"
      "o_name exPost = ''Post''" "o_name exComment = ''Comment''"
      "map i_name (g_interfaces exFullArgs) = [''Node'']"
      "map u_name (g_unions exFullArgs) = [''SearchResult'']"
    by (simp_all add: ex_full_defs ex_defs)
  have l1: "list_all (\<lambda>t. validName (o_name t)) (g_types exFullArgs)"
    and l2: "list_all (\<lambda>i. validName (i_name i)) (g_interfaces exFullArgs)"
    and l3: "list_all (\<lambda>u. validName (u_name u)) (g_unions exFullArgs)"
    using h1 h2 h3 by (simp_all add: list_all_iff)
  have k1: "map entryKey (ts_resolversEntries exFullArgs)
       = [''Query'', ''User'', ''Post'', ''Comment'', ''Node'', ''SearchResult'']"
    using main [THEN conjunct1] by (simp add: objs names)
  have k2: "map entryOptional (ts_resolversEntries exFullArgs)
       = [False, False, False, False, True, True]"
    using main [THEN conjunct2, THEN conjunct1] by (simp add: objs names) (simp add: ex_full_defs)
  have k3: "map entryTarget (ts_resolversEntries exFullArgs)
       = [''QueryResolvers.Type'', ''UserResolvers.Type'', ''PostResolvers.Type'',
          ''CommentResolvers.Type'', ''NodeResolvers.Type'', ''SearchResultResolvers.Type'']"
    using main [THEN conjunct2, THEN conjunct2, THEN conjunct1]
    by (simp add: objs names) (simp add: ex_full_defs)
  have f1: "map entryKey (flow_resolversEntries exFullArgs)
       = [''Query'', ''User'', ''Post'', ''Comment'', ''Node'', ''SearchResult'']"
    using main [THEN rest, THEN conjunct1] by (simp add: objs names)
  have f2: "map entryOptional (flow_resolversEntries exFullArgs)
       = [False, False, False, False, True, True]"
    using main [THEN rest, THEN conjunct2, THEN conjunct1]
    by (simp add: objs names) (simp add: ex_full_defs)
  have f3: "map entryTarget (flow_resolversEntries exFullArgs)
       = [''Query_Resolvers'', ''User_Resolvers'', ''Post_Resolvers'', ''Comment_Resolvers'',
          ''Node_Resolvers'', ''SearchResult_Resolvers'']"
    using main [THEN rest, THEN conjunct2, THEN conjunct2, THEN conjunct1]
    by (simp add: objs names toUpperCase_def) (simp add: ex_full_defs toUpperCase_def)
  have p: "exPost \<in> set (filter (\<lambda>t. isObject (o_type t)) (g_types exFullArgs))"
    by (simp add: objs)
  note decl = main [THEN rest, THEN rest, THEN conjunct2, THEN conjunct2, rule_format, OF p]
  have "ts_renderNamespace exampleCommon exPost
          (build_interfacesMap (g_interfaces exFullArgs))
          (build_unionsMap (g_unions exFullArgs))
          (build_typeToInputTypeAssociation (g_types exFullArgs))
          (build_inputTypesMap (g_types exFullArgs)) exFullArgs \<noteq> None"
    by code_simp
  then obtain ns where ns: "ts_renderNamespace exampleCommon exPost
          (build_interfacesMap (g_interfaces exFullArgs))
          (build_unionsMap (g_unions exFullArgs))
          (build_typeToInputTypeAssociation (g_types exFullArgs))
          (build_inputTypesMap (g_types exFullArgs)) exFullArgs = Some ns"
    by blast
  with decl have d1: "declaredNamespace ns = Some (o_name exPost @ ''Resolvers'')"
    by blast
  have "ts_renderResolverTypeInterface exampleCommon exPost (g_modelMap exFullArgs)
          (build_interfacesMap (g_interfaces exFullArgs))
          (build_unionsMap (g_unions exFullArgs)) (g_context exFullArgs) ''Type'' \<noteq> None"
    by code_simp
  then obtain ti where ti: "ts_renderResolverTypeInterface exampleCommon exPost
          (g_modelMap exFullArgs) (build_interfacesMap (g_interfaces exFullArgs))
          (build_unionsMap (g_unions exFullArgs)) (g_context exFullArgs) ''Type'' = Some ti"
    by blast
  with decl have d2: "declaredInterface ti = Some ''Type''"
    by blast
  from decl have d3: "declaredInterface
         (flow_renderResolverTypeInterface exampleCommon exPost (g_modelMap exFullArgs)
            (build_interfacesMap (g_interfaces exFullArgs))
            (build_unionsMap (g_unions exFullArgs)) (g_context exFullArgs))
       = Some (upperFirst (o_name exPost) @ ''_Resolvers'')"
    by blast
  from l1 l2 l3 k1 k2 k3 f1 f2 f3 p ns d1 ti d2 d3 show ?thesis
    by (intro conjI exI [of _ ns] exI [of _ ti])
qed

section \<open>Resolvers of an interface\<close>

lemma interfacesMap_lookup:
  assumes "distinct (map i_name ifaces)" "iface \<in> set ifaces"
  shows "map_of (build_interfacesMap ifaces) (i_name iface) = Some (i_types iface)"
  unfolding build_interfacesMap_def
  using map_of_foldl_update [OF assms, of i_types "[]"] .

lemma ts_parent_of_interface:
  assumes "distinct (map i_name ifaces)" "iface \<in> set ifaces" "isInterface (i_type iface)"
  shows "ts_parent (interfaceAsObject iface) mm (build_interfacesMap ifaces)
     = Some (join '' | '' (map (\<lambda>t. getModelName t mm ''undefined'') (i_types iface)))"
  using assms(3) interfacesMap_lookup [OF assms(1,2)]
  by (simp add: ts_parent_def interfaceAsObject_def)

lemma ts_resolverDefinition_parent:
  "sublist (''parent: '' @ parent @ '','') (ts_resolverDefinition cm parent field ctx)"
proof -
  have "ts_resolverDefinition cm parent field ctx
      = (nl @ ''  ('' @ nl @ ''    '') @ (''parent: '' @ parent @ '','')
        @ (nl @ ''    args: ''
           @ (if length (f_arguments field) > 0 then ''Args'' @ upperFirst (f_name field)
              else ''{}'')
           @ '','' @ nl
           @ ''    ctx: '' @ getContextName cm ctx @ '','' @ nl
           @ ''    info: GraphQLResolveInfo,'' @ nl
           @ ''  )'' @ nl
           @ ''  '')"
    by (simp add: ts_resolverDefinition_def)
  then show ?thesis unfolding sublist_def by blast
qed

lemma ts_renderResolverTypeInterfaceFunction_parent:
  assumes "ts_parent type mm im = Some parent"
  shows "\<exists>out. ts_renderResolverTypeInterfaceFunction cm field type mm im um ctx = Some out
            \<and> sublist (''parent: '' @ parent @ '','') out"
proof -
  let ?d = "ts_resolverDefinition cm parent field ctx"
  let ?r = "printFieldLikeType cm field mm im um False"
  have "\<exists>out ps ss. ts_renderResolverTypeInterfaceFunction cm field type mm im um ctx = Some out
      \<and> out = ps @ ?d @ ss"
  proof (cases "o_name type = ''Subscription''")
    case True
    have "ts_renderResolverTypeInterfaceFunction cm field type mm im um ctx
      = Some ((nl @ ''    '' @ f_name field @ '': {'' @ nl @ ''      subscribe: '') @ ?d
          @ ('' => AsyncIterator<'' @ ?r @ ''> | Promise<AsyncIterator<'' @ ?r @ ''>>'' @ nl
             @ ''      resolve?: '' @ ?d @ '' => '' @ ?r @ '' | Promise<'' @ ?r @ ''>'' @ nl
             @ ''    }'' @ nl @ ''    ''))"
      using assms True by (simp add: ts_renderResolverTypeInterfaceFunction_def Let_def)
    then show ?thesis by blast
  next
    case False
    have "ts_renderResolverTypeInterfaceFunction cm field type mm im um ctx
      = Some ((nl @ ''    '' @ f_name field @ '': '') @ ?d
          @ ('' => '' @ ?r @ '' | Promise<'' @ ?r @ ''>'' @ nl @ ''  ''))"
      using assms False by (simp add: ts_renderResolverTypeInterfaceFunction_def Let_def)
    then show ?thesis by blast
  qed
  then obtain out ps ss where
    out: "ts_renderResolverTypeInterfaceFunction cm field type mm im um ctx = Some out"
    and "out = ps @ ?d @ ss"
    by blast
  then have "sublist ?d out" unfolding sublist_def by blast
  with ts_resolverDefinition_parent [of parent cm field ctx]
  have "sublist (''parent: '' @ parent @ '','') out"
    using sublist_order.order_trans by blast
  with out show ?thesis by blast
qed

lemma ts_possibleTypes_no_interfaces:
  "o_interfaces type = None \<Longrightarrow> \<exists>ts. ts_possibleTypes type im um = Some ts"
  by (simp add: ts_possibleTypes_def)

lemma ts_renderInterfaceNamespace_resolveType:
  assumes "ts_parent (interfaceAsObject iface) (g_modelMap args) im = Some parent"
  shows "\<exists>out. ts_renderInterfaceNamespace cm iface im um args = Some out
            \<and> sublist (''__resolveType: GraphQLTypeResolver<''
                 @ join '' | '' (map (\<lambda>t. getModelName t (g_modelMap args) (defaultEmptyType cm))
                                   (i_types iface))
                 @ '', '' @ getContextName cm (g_context args) @ ''>;'') out"
proof -
  let ?type = "interfaceAsObject iface"
  let ?mm = "g_modelMap args"
  have "\<forall>field \<in> set (o_fields ?type).
          ts_renderResolverTypeInterfaceFunction cm field ?type ?mm im um (g_context args) \<noteq> None"
    using ts_renderResolverTypeInterfaceFunction_parent [OF assms] by fastforce
  from those_all_Some [OF this] obtain fns where fs:
    "those (map (\<lambda>field. ts_renderResolverTypeInterfaceFunction cm field ?type ?mm im um
                            (g_context args)) (o_fields ?type)) = Some fns"
    by blast
  have "o_interfaces ?type = None" by (simp add: interfaceAsObject_def)
  from ts_possibleTypes_no_interfaces [OF this] obtain ts where
    "ts_possibleTypes ?type im um = Some ts" by blast
  then obtain isTypeOf where
    "ts_renderIsTypeOfFunctionInterface cm ?type ?mm im um (g_context args) = Some isTypeOf"
    by (simp add: ts_renderIsTypeOfFunctionInterface_def)
  with fs obtain interfaceType where it:
    "ts_renderResolverTypeInterface cm ?type ?mm im um (g_context args) ''InterfaceType''
       = Some interfaceType"
    by (simp add: ts_renderResolverTypeInterface_def Let_def)
  let ?needle = "''__resolveType: '' @ ts_resolveType cm (i_types iface) args"
  let ?out = "(''    export namespace '' @ i_name iface @ ''Resolvers {'' @ nl
         @ ''      '' @ ts_renderInputArgInterfaces cm ?type ?mm im um @ nl
         @ nl
         @ ''      '' @ interfaceType @ nl
         @ nl
         @ ''      export interface Type {'' @ nl
         @ ''        '') @ ?needle @ (nl
         @ ''      }'' @ nl
         @ ''    }'' @ nl
         @ ''  '')"
  have "ts_renderInterfaceNamespace cm iface im um args = Some ?out"
    using it by (simp add: ts_renderInterfaceNamespace_def)
  moreover have "sublist ?needle ?out" by (rule sublist_appendI)
  moreover have "?needle = ''__resolveType: GraphQLTypeResolver<''
                 @ join '' | '' (map (\<lambda>t. getModelName t (g_modelMap args) (defaultEmptyType cm))
                                   (i_types iface))
                 @ '', '' @ getContextName cm (g_context args) @ ''>;''"
    by (simp add: ts_resolveType_def)
  ultimately show ?thesis by metis
qed

text \<open>
  Claim C6. In the TypeScript dialect, for an interface of the run (interface names
  distinct), the parent of every resolver of the interface is the union, joined with
  \<open>|\<close>, of the model names that \<open>getModelName\<close> resolves for the implementing types of
  the interface, in their order; the model of the interface itself plays no part. The
  namespace of the interface is rendered without an error and its \<open>__resolveType\<close>
  binding is typed over the union of the model names of the same implementing types.
  When every implementing type has a model, the two unions are the same text (for a
  type without a model the first names \<open>undefined\<close>, the second the default empty type
  of \<open>getModelName\<close>).
\<close>

theorem interface_parent_is_union_of_implementer_models:
  assumes "distinct (map i_name (g_interfaces args))"
    and "iface \<in> set (g_interfaces args)" and "isInterface (i_type iface)"
  shows "ts_parent (interfaceAsObject iface) (g_modelMap args)
             (build_interfacesMap (g_interfaces args))
           = Some (join '' | '' (map (\<lambda>t. getModelName t (g_modelMap args) ''undefined'')
                                   (i_types iface)))
       \<and> (\<forall>field. \<exists>out.
             ts_renderResolverTypeInterfaceFunction cm field (interfaceAsObject iface)
               (g_modelMap args) (build_interfacesMap (g_interfaces args)) um (g_context args)
               = Some out
           \<and> sublist (''parent: ''
                        @ join '' | '' (map (\<lambda>t. getModelName t (g_modelMap args) ''undefined'')
                                         (i_types iface))
                        @ '','') out)
       \<and> (\<exists>out.
             ts_renderInterfaceNamespace cm iface (build_interfacesMap (g_interfaces args)) um args
               = Some out
           \<and> sublist (''__resolveType: GraphQLTypeResolver<''
                        @ join '' | '' (map (\<lambda>t. getModelName t (g_modelMap args)
                                                   (defaultEmptyType cm))
                                         (i_types iface))
                        @ '', '' @ getContextName cm (g_context args) @ ''>;'') out)
       \<and> ((\<forall>t \<in> set (i_types iface). t_name t \<in> fst ` set (g_modelMap args)) \<longrightarrow>
             join '' | '' (map (\<lambda>t. getModelName t (g_modelMap args) ''undefined'')
                             (i_types iface))
             = join '' | '' (map (\<lambda>t. getModelName t (g_modelMap args) (defaultEmptyType cm))
                               (i_types iface)))"
proof -
  let ?im = "build_interfacesMap (g_interfaces args)"
  let ?parent = "join '' | '' (map (\<lambda>t. getModelName t (g_modelMap args) ''undefined'')
                                   (i_types iface))"
  have p: "ts_parent (interfaceAsObject iface) (g_modelMap args) ?im = Some ?parent"
    by (rule ts_parent_of_interface [OF assms])
  have f: "\<forall>field. \<exists>out.
             ts_renderResolverTypeInterfaceFunction cm field (interfaceAsObject iface)
               (g_modelMap args) ?im um (g_context args) = Some out
           \<and> sublist (''parent: '' @ ?parent @ '','') out"
    using ts_renderResolverTypeInterfaceFunction_parent [OF p] by blast
  have n: "\<exists>out.
             ts_renderInterfaceNamespace cm iface ?im um args = Some out
           \<and> sublist (''__resolveType: GraphQLTypeResolver<''
                        @ join '' | '' (map (\<lambda>t. getModelName t (g_modelMap args)
                                                   (defaultEmptyType cm))
                                         (i_types iface))
                        @ '', '' @ getContextName cm (g_context args) @ ''>;'') out"
    by (rule ts_renderInterfaceNamespace_resolveType [OF p])
  have e: "(\<forall>t \<in> set (i_types iface). t_name t \<in> fst ` set (g_modelMap args)) \<longrightarrow>
             ?parent
             = join '' | '' (map (\<lambda>t. getModelName t (g_modelMap args) (defaultEmptyType cm))
                               (i_types iface))"
  proof
    assume "\<forall>t \<in> set (i_types iface). t_name t \<in> fst ` set (g_modelMap args)"
    then have "map (\<lambda>t. getModelName t (g_modelMap args) ''undefined'') (i_types iface)
        = map (\<lambda>t. getModelName t (g_modelMap args) (defaultEmptyType cm)) (i_types iface)"
      using getModelName_bound by (intro map_cong) auto
    then show "?parent
             = join '' | '' (map (\<lambda>t. getModelName t (g_modelMap args) (defaultEmptyType cm))
                               (i_types iface))"
      by (rule arg_cong)
  qed
  from p f n e show ?thesis by (intro conjI)
qed

theorem interface_parent_is_union_of_implementer_models_witness:
  "distinct (map i_name (g_interfaces exBoundNodeArgs))
   \<and> exNode \<in> set (g_interfaces exBoundNodeArgs) \<and> isInterface (i_type exNode)
   \<and> map_of (g_modelMap exBoundNodeArgs) (i_name exNode)
       = Some (exModel ''NodeModel'' ''./models'' [''id''])
   \<and> list_all (\<lambda>t. t_name t \<in> fst ` set (g_modelMap exBoundNodeArgs)) (i_types exNode)
   \<and> ts_parent (interfaceAsObject exNode) (g_modelMap exBoundNodeArgs)
         (build_interfacesMap (g_interfaces exBoundNodeArgs))
       = Some ''PostModel | CommentModel''
   \<and> (\<exists>out.
         ts_renderResolverTypeInterfaceFunction exampleCommon exIdField (interfaceAsObject exNode)
           (g_modelMap exBoundNodeArgs) (build_interfacesMap (g_interfaces exBoundNodeArgs))
           (build_unionsMap (g_unions exBoundNodeArgs)) (g_context exBoundNodeArgs) = Some out
       \<and> sublist ''parent: PostModel | CommentModel,'' out)
   \<and> (\<exists>out.
         ts_renderInterfaceNamespace exampleCommon exNode
           (build_interfacesMap (g_interfaces exBoundNodeArgs))
           (build_unionsMap (g_unions exBoundNodeArgs)) exBoundNodeArgs = Some out
       \<and> sublist ''__resolveType: GraphQLTypeResolver<PostModel | CommentModel, Context>;'' out)"
proof -
  have h1: "distinct (map i_name (g_interfaces exBoundNodeArgs))"
    by (simp add: exBoundNodeArgs_def ex_full_defs)
  have h2: "exNode \<in> set (g_interfaces exBoundNodeArgs)"
    by (simp add: exBoundNodeArgs_def exFullArgs_def)
  have h3: "isInterface (i_type exNode)"
    by (simp add: exNode_def namedType_def)
  have h4: "\<forall>t \<in> set (i_types exNode). t_name t \<in> fst ` set (g_modelMap exBoundNodeArgs)"
    by (simp add: exBoundNodeArgs_def ex_full_defs namedType_def)
  have own: "map_of (g_modelMap exBoundNodeArgs) (i_name exNode)
       = Some (exModel ''NodeModel'' ''./models'' [''id''])"
    by (simp add: exBoundNodeArgs_def ex_full_defs)
  have l4: "list_all (\<lambda>t. t_name t \<in> fst ` set (g_modelMap exBoundNodeArgs)) (i_types exNode)"
    using h4 by (simp add: list_all_iff)
  note main = interface_parent_is_union_of_implementer_models
    [OF h1 h2 h3, where cm = exampleCommon and um = "build_unionsMap (g_unions exBoundNodeArgs)"]
  have u1: "join '' | '' (map (\<lambda>t. getModelName t (g_modelMap exBoundNodeArgs) ''undefined'')
                            (i_types exNode)) = ''PostModel | CommentModel''"
    by (simp add: exBoundNodeArgs_def ex_full_defs namedType_def getModelName_def)
  from main [THEN conjunct2, THEN conjunct2, THEN conjunct2] h4
  have u2: "join '' | '' (map (\<lambda>t. getModelName t (g_modelMap exBoundNodeArgs)
                                      (defaultEmptyType exampleCommon))
                            (i_types exNode)) = ''PostModel | CommentModel''"
    using u1 by simp
  have c: "getContextName exampleCommon (g_context exBoundNodeArgs) = ''Context''"
    by (simp add: exBoundNodeArgs_def exFullArgs_def exampleCommon_def)
  have p: "ts_parent (interfaceAsObject exNode) (g_modelMap exBoundNodeArgs)
         (build_interfacesMap (g_interfaces exBoundNodeArgs))
       = Some ''PostModel | CommentModel''"
    using main [THEN conjunct1] by (simp only: u1)
  have f: "\<exists>out.
         ts_renderResolverTypeInterfaceFunction exampleCommon exIdField (interfaceAsObject exNode)
           (g_modelMap exBoundNodeArgs) (build_interfacesMap (g_interfaces exBoundNodeArgs))
           (build_unionsMap (g_unions exBoundNodeArgs)) (g_context exBoundNodeArgs) = Some out
       \<and> sublist ''parent: PostModel | CommentModel,'' out"
    using main [THEN conjunct2, THEN conjunct1, rule_format, of exIdField]
    by (simp only: u1) simp
  have n: "\<exists>out.
         ts_renderInterfaceNamespace exampleCommon exNode
           (build_interfacesMap (g_interfaces exBoundNodeArgs))
           (build_unionsMap (g_unions exBoundNodeArgs)) exBoundNodeArgs = Some out
       \<and> sublist ''__resolveType: GraphQLTypeResolver<PostModel | CommentModel, Context>;'' out"
    using main [THEN conjunct2, THEN conjunct2, THEN conjunct1]
    by (simp only: u2 c) simp
  from h1 h2 h3 own l4 p f n show ?thesis by (intro conjI)
qed

section \<open>Default resolvers and the flag\<close>

text \<open>
  What holds of the bundle: a field without arguments whose name is a property of the
  model bound to its type is bound in the bundle; the Flow generator renders the bundle
  when the flag is enabled and leaves its place empty when the flag is disabled; the
  TypeScript generator never reads the flag.
\<close>

lemma default_bundle_includes_matching_fields:
  assumes "map_of (g_modelMap args) (o_name type) = Some model"
    and "field \<in> set (o_fields type)" and "f_arguments field = []"
    and "f_name field \<in> set (d_properties (m_definition model))"
  shows "f_name field \<in> set (defaultResolverFields type args)"
    and "sublist (renderDefaultResolver (f_name field))
           (renderDefaultResolvers type args variableName)"
proof -
  show in_fields: "f_name field \<in> set (defaultResolverFields type args)"
    using assms by (auto simp: defaultResolverFields_def)
  then have "renderDefaultResolver (f_name field)
      \<in> set (map renderDefaultResolver (defaultResolverFields type args))"
    by simp
  then have "sublist (renderDefaultResolver (f_name field))
      (join EOL (map renderDefaultResolver (defaultResolverFields type args)))"
    by (rule sublist_join)
  then obtain ps ss where
    "join EOL (map renderDefaultResolver (defaultResolverFields type args))
       = ps @ renderDefaultResolver (f_name field) @ ss"
    unfolding sublist_def by blast
  then have "renderDefaultResolvers type args variableName
      = (''export const '' @ variableName @ '' = {'' @ nl @ ps)
        @ renderDefaultResolver (f_name field) @ (ss @ nl @ ''}'')"
    by (simp add: renderDefaultResolvers_def)
  then show "sublist (renderDefaultResolver (f_name field))
           (renderDefaultResolvers type args variableName)"
    unfolding sublist_def by blast
qed

lemma flow_renderNamespace_enabled:
  assumes "g_defaultResolversEnabled args"
    and "flow_renderNamespace cm type im um assoc reg args = Some out"
  shows "sublist (renderDefaultResolvers type args (upperFirst (o_name type) @ ''_defaultResolvers''))
           out"
proof -
  from assms obtain rest where
    "out = (''    // Types for '' @ upperFirst (o_name type) @ nl @ ''    '')
       @ renderDefaultResolvers type args (upperFirst (o_name type) @ ''_defaultResolvers'')
       @ rest"
    by (auto simp: flow_renderNamespace_def Let_def bind_eq_Some_conv)
  then show ?thesis unfolding sublist_def by blast
qed

lemma flow_renderNamespace_disabled:
  assumes "\<not> g_defaultResolversEnabled args"
    and "flow_renderNamespace cm type im um assoc reg args = Some out"
  shows "\<exists>rest. out = ''    // Types for '' @ upperFirst (o_name type) @ nl @ ''    '' @ nl @ rest"
  using assms by (auto simp: flow_renderNamespace_def Let_def bind_eq_Some_conv)

lemma renderDefaultResolvers_ignores_flag:
  "renderDefaultResolvers type (args\<lparr>g_defaultResolversEnabled := b\<rparr>) name
     = renderDefaultResolvers type args name"
  by (simp add: renderDefaultResolvers_def defaultResolverFields_def)

lemma ts_renderNamespace_ignores_flag:
  "ts_renderNamespace cm type im um assoc reg (args\<lparr>g_defaultResolversEnabled := b\<rparr>)
     = ts_renderNamespace cm type im um assoc reg args"
  by (simp add: ts_renderNamespace_def renderDefaultResolvers_ignores_flag)

text \<open>
  Claim C7 says that, with the flag disabled, no object type gets a default-resolver
  bundle. The TypeScript generator renders one all the same: in the run below the flag
  is disabled, \<open>User\<close> has the field \<open>id\<close> without arguments and a model with the
  property \<open>id\<close>, and the namespace of \<open>User\<close> holds the bundle
  \<open>defaultResolvers\<close> that binds \<open>id\<close>. The Flow generator, on the same run, renders
  no bundle.
\<close>

theorem ts_renders_default_resolvers_when_disabled:
  "\<not> g_defaultResolversEnabled exFullArgs
   \<and> defaultResolverFields exUser exFullArgs = [''id'']
   \<and> map_option
         (sublist (''export const defaultResolvers = {'' @ nl
                   @ ''id: (parent) => parent.id,'' @ nl
                   @ ''}''))
         (ts_renderNamespace exampleCommon exUser
            (build_interfacesMap (g_interfaces exFullArgs))
            (build_unionsMap (g_unions exFullArgs))
            (build_typeToInputTypeAssociation (g_types exFullArgs))
            (build_inputTypesMap (g_types exFullArgs)) exFullArgs)
       = Some True
   \<and> map_option (sublist ''defaultResolvers'')
         (flow_renderNamespace exampleCommon exUser
            (createInterfacesMap exampleCommon (g_interfaces exFullArgs))
            (createUnionsMap exampleCommon (g_unions exFullArgs))
            (build_typeToInputTypeAssociation (g_types exFullArgs))
            (build_inputTypesMap (g_types exFullArgs)) exFullArgs)
       = Some False"
  by code_simp

section \<open>Imports of the TypeScript header\<close>

lemma set_ts_modelsToImport:
  "set (ts_modelsToImport mm) = {m \<in> snd ` set mm. \<not> isEnumAlias m}"
  by (auto simp: ts_modelsToImport_def isEnumAlias_def image_iff)

lemma groups_paths:
  "map fst (groupModelsNameByImportPath models) = sort (remdups (map m_importPath models))"
  by (simp add: groupModelsNameByImportPath_def comp_def)

lemma groups_names:
  assumes "(path, names) \<in> set (groupModelsNameByImportPath models)"
  shows "names = firstSeen (map (\<lambda>m. d_name (m_definition m))
                   (filter (\<lambda>m. m_importPath m = path) models))"
  using assms by (auto simp: groupModelsNameByImportPath_def)

text \<open>
  Claim C9. The models that the TypeScript header imports are the models of the model
  map that are not enum aliases: an enum alias is never imported, every other model
  is. The header holds one import statement per import path of these models, and the
  statement of a path names the target names of exactly the models of that path, each
  once.
\<close>

theorem ts_header_imports_exclude_enum_aliases:
  "set (ts_modelsToImport (g_modelMap args))
     = {m \<in> snd ` set (g_modelMap args). \<not> isEnumAlias m}
   \<and> ts_modelImports args
       = map ts_modelImport (groupModelsNameByImportPath (ts_modelsToImport (g_modelMap args)))
   \<and> distinct (map fst (groupModelsNameByImportPath (ts_modelsToImport (g_modelMap args))))
   \<and> set (map fst (groupModelsNameByImportPath (ts_modelsToImport (g_modelMap args))))
       = m_importPath ` {m \<in> snd ` set (g_modelMap args). \<not> isEnumAlias m}
   \<and> (\<forall>path names.
         (path, names) \<in> set (groupModelsNameByImportPath (ts_modelsToImport (g_modelMap args)))
         \<longrightarrow> distinct names
           \<and> set names = {d_name (m_definition m) | m.
                             m \<in> snd ` set (g_modelMap args) \<and> \<not> isEnumAlias m
                             \<and> m_importPath m = path}
           \<and> ts_modelImport (path, names)
               = ''import { '' @ join '', '' names @ '' } from '' @ sq @ path @ sq)
   \<and> sublist (join EOL (ts_modelImports args)) (ts_renderHeader cm args)"
proof -
  let ?models = "ts_modelsToImport (g_modelMap args)"
  let ?groups = "groupModelsNameByImportPath ?models"
  have s: "set ?models = {m \<in> snd ` set (g_modelMap args). \<not> isEnumAlias m}"
    by (rule set_ts_modelsToImport)
  have i: "ts_modelImports args = map ts_modelImport ?groups"
    by (simp add: ts_modelImports_def)
  have d: "distinct (map fst ?groups)"
    by (simp add: groups_paths)
  have p: "set (map fst ?groups)
      = m_importPath ` {m \<in> snd ` set (g_modelMap args). \<not> isEnumAlias m}"
    unfolding groups_paths using s by simp
  have g: "\<forall>path names. (path, names) \<in> set ?groups
         \<longrightarrow> distinct names
           \<and> set names = {d_name (m_definition m) | m.
                             m \<in> snd ` set (g_modelMap args) \<and> \<not> isEnumAlias m
                             \<and> m_importPath m = path}
           \<and> ts_modelImport (path, names)
               = ''import { '' @ join '', '' names @ '' } from '' @ sq @ path @ sq"
  proof (intro allI impI conjI)
    fix path names
    assume "(path, names) \<in> set ?groups"
    then have n: "names = firstSeen (map (\<lambda>m. d_name (m_definition m))
                   (filter (\<lambda>m. m_importPath m = path) ?models))"
      by (rule groups_names)
    show "distinct names" by (simp add: n distinct_firstSeen)
    show "set names = {d_name (m_definition m) | m.
                             m \<in> snd ` set (g_modelMap args) \<and> \<not> isEnumAlias m
                             \<and> m_importPath m = path}"
      unfolding n set_firstSeen using s by auto
    show "ts_modelImport (path, names)
               = ''import { '' @ join '', '' names @ '' } from '' @ sq @ path @ sq"
      by (simp add: ts_modelImport_def)
  qed
  have "ts_renderHeader cm args
      = (nl @ ''// Code generated by github.com/prisma/graphqlgen, DO NOT EDIT.'' @ nl
         @ nl
         @ ''import { GraphQLResolveInfo, GraphQLTypeResolver, GraphQLIsTypeOfFn } from ''
         @ sq @ ''graphql'' @ sq @ nl)
        @ join EOL (ts_modelImports args)
        @ (nl @ ts_renderContext cm (g_context args) @ nl @ ''  '')"
    by (simp add: ts_renderHeader_def)
  then have h: "sublist (join EOL (ts_modelImports args)) (ts_renderHeader cm args)"
    unfolding sublist_def by blast
  from s i d p g h show ?thesis by (intro conjI)
qed

theorem ts_header_imports_exclude_enum_aliases_witness:
  "(''./models'', [''UserModel'', ''PostModel''])
     \<in> set (groupModelsNameByImportPath (ts_modelsToImport (g_modelMap exFullArgs)))
   \<and> (''Role'', exRoleModel) \<in> set (g_modelMap exFullArgs) \<and> isEnumAlias exRoleModel
   \<and> m_importPath exRoleModel = ''./enums''
   \<and> map fst (groupModelsNameByImportPath (ts_modelsToImport (g_modelMap exFullArgs)))
       = [''./comments'', ''./models'']
   \<and> distinct (map fst (groupModelsNameByImportPath (ts_modelsToImport (g_modelMap exFullArgs))))
   \<and> ts_modelImports exFullArgs
       = [''import { CommentModel } from '' @ sq @ ''./comments'' @ sq,
          ''import { UserModel, PostModel } from '' @ sq @ ''./models'' @ sq]
   \<and> ts_modelImport (''./models'', [''UserModel'', ''PostModel''])
       = ''import { '' @ join '', '' [''UserModel'', ''PostModel''] @ '' } from ''
         @ sq @ ''./models'' @ sq
   \<and> sublist (join EOL (ts_modelImports exFullArgs)) (ts_renderHeader exampleCommon exFullArgs)"
proof -
  have m: "(''./models'', [''UserModel'', ''PostModel''])
     \<in> set (groupModelsNameByImportPath (ts_modelsToImport (g_modelMap exFullArgs)))"
    by code_simp
  have r: "(''Role'', exRoleModel) \<in> set (g_modelMap exFullArgs)" "isEnumAlias exRoleModel"
      "m_importPath exRoleModel = ''./enums''"
    by (simp_all add: ex_full_defs isEnumAlias_def)
  have paths: "map fst (groupModelsNameByImportPath (ts_modelsToImport (g_modelMap exFullArgs)))
       = [''./comments'', ''./models'']"
    by code_simp
  have lines: "ts_modelImports exFullArgs
       = [''import { CommentModel } from '' @ sq @ ''./comments'' @ sq,
          ''import { UserModel, PostModel } from '' @ sq @ ''./models'' @ sq]"
    by code_simp
  note main = ts_header_imports_exclude_enum_aliases [of exFullArgs exampleCommon]
  note d = main [THEN conjunct2, THEN conjunct2, THEN conjunct1]
  note g = main [THEN conjunct2, THEN conjunct2, THEN conjunct2, THEN conjunct2, THEN conjunct1,
      rule_format, OF m]
  note h = main [THEN conjunct2, THEN conjunct2, THEN conjunct2, THEN conjunct2, THEN conjunct2]
  from g have t: "ts_modelImport (''./models'', [''UserModel'', ''PostModel''])
       = ''import { '' @ join '', '' [''UserModel'', ''PostModel''] @ '' } from ''
         @ sq @ ''./models'' @ sq"
    by blast
  from m r paths d lines t h show ?thesis by (intro conjI)
qed

section \<open>The isTypeOf binding of an object type\<close>

lemma fold_interfaces:
  assumes "\<forall>i \<in> set names. map_of im i \<noteq> None"
  shows "foldl (\<lambda>acc interfaceName.
                  do {
                    obj \<leftarrow> acc;
                    implementers \<leftarrow> map_of im interfaceName;
                    Some (flatten obj implementers)
                  })
           (Some start) names
         = Some (start @ concat (map (\<lambda>i. case map_of im i of None \<Rightarrow> [] | Some ms \<Rightarrow> ms)
                                   names))"
  using assms
proof (induction names arbitrary: start)
  case Nil
  then show ?case by simp
next
  case (Cons n names)
  then obtain ms where ms: "map_of im n = Some ms" by auto
  from Cons have "\<forall>i \<in> set names. map_of im i \<noteq> None" by simp
  from Cons.IH [OF this, of "start @ ms"] ms show ?case
    by (simp add: flatten_def)
qed

lemma fold_unions:
  "foldl (\<lambda>possibleTypes (unionName, members).
            if find (\<lambda>unionType. t_name unionType = o_name type) members \<noteq> None
            then members else possibleTypes)
     start um
   = (if unionsWithMember type um = [] then start
      else snd (last (unionsWithMember type um)))"
proof (induction um rule: rev_induct)
  case Nil
  then show ?case by (simp add: unionsWithMember_def)
next
  case (snoc u um)
  obtain n ms where u: "u = (n, ms)" by (cases u)
  have "(find (\<lambda>unionType. t_name unionType = o_name type) ms \<noteq> None)
      = (o_name type \<in> t_name ` set ms)"
    by (force simp: find_None_iff)
  with snoc u show ?case
    by (simp add: unionsWithMember_def)
qed

lemma ts_possibleTypes_eq:
  assumes "\<forall>i \<in> set (interfacesOf type). map_of im i \<noteq> None"
  shows "ts_possibleTypes type im um
     = Some (if unionsWithMember type um = [] then interfaceImplementers type im
             else snd (last (unionsWithMember type um)))"
proof (cases "o_interfaces type")
  case None
  then show ?thesis
    by (simp only: ts_possibleTypes_def fold_unions)
      (simp add: interfaceImplementers_def interfacesOf_def)
next
  case (Some names)
  with assms have "\<forall>i \<in> set names. map_of im i \<noteq> None"
    by (simp add: interfacesOf_def)
  from fold_interfaces [OF this, of "[]"] Some show ?thesis
    by (simp only: ts_possibleTypes_def fold_unions)
      (simp add: interfaceImplementers_def interfacesOf_def)
qed

lemma possible_nonempty_iff:
  assumes "\<forall>i \<in> set (interfacesOf type). \<exists>ms. map_of im i = Some ms \<and> ms \<noteq> []"
  shows "((if unionsWithMember type um = [] then interfaceImplementers type im
           else snd (last (unionsWithMember type um))) = [])
         \<longleftrightarrow> (interfacesOf type = [] \<and> unionsWithMember type um = [])"
proof (cases "unionsWithMember type um = []")
  case True
  have "(interfaceImplementers type im = []) \<longleftrightarrow> (interfacesOf type = [])"
  proof
    assume e: "interfaceImplementers type im = []"
    show "interfacesOf type = []"
    proof (rule ccontr)
      assume "interfacesOf type \<noteq> []"
      then obtain i where i: "i \<in> set (interfacesOf type)" by (cases "interfacesOf type") auto
      with assms obtain ms where "map_of im i = Some ms" "ms \<noteq> []" by blast
      with i e show False by (auto simp: interfaceImplementers_def)
    qed
  next
    assume "interfacesOf type = []"
    then show "interfaceImplementers type im = []" by (simp add: interfaceImplementers_def)
  qed
  with True show ?thesis by simp
next
  case False
  then have "last (unionsWithMember type um) \<in> set (unionsWithMember type um)"
    by (rule last_in_set)
  then have "o_name type \<in> t_name ` set (snd (last (unionsWithMember type um)))"
    by (auto simp: unionsWithMember_def)
  then have "snd (last (unionsWithMember type um)) \<noteq> []" by auto
  with False show ?thesis by simp
qed

lemma ts_renderResolverTypeInterface_ends:
  assumes "ts_renderResolverTypeInterface cm type mm im um ctx interfaceName = Some out"
    and "ts_renderIsTypeOfFunctionInterface cm type mm im um ctx = Some binding"
  shows "suffix (''      '' @ binding @ nl @ ''  }'' @ nl @ ''  '') out"
proof -
  from assms obtain pre where
    "out = pre @ (''      '' @ binding @ nl @ ''  }'' @ nl @ ''  '')"
    unfolding ts_renderResolverTypeInterface_def Let_def
    by (auto simp: bind_eq_Some_conv)
  then show ?thesis unfolding suffix_def by blast
qed

text \<open>
  Claim C10. In the TypeScript dialect, let every interface that an object type names be
  registered with at least one implementer. The possible types of the type are the
  members of the last union of the registry that has a member of its name, whatever its
  interfaces are; without such a union they are the implementers of its interfaces.
  The \<open>__isTypeOf\<close> binding is the empty text exactly when the type names no
  interface and is a member of no union; otherwise it is the optional binding
  \<open>__isTypeOf?\<close> typed over the union of the models of the possible types. The
  resolver-shape declaration of the type ends with this text before its closing brace.
\<close>

theorem isTypeOf_binding_iff_interface_or_union:
  assumes "\<forall>i \<in> set (interfacesOf type). \<exists>ms. map_of im i = Some ms \<and> ms \<noteq> []"
  shows "ts_possibleTypes type im um
           = Some (if unionsWithMember type um = [] then interfaceImplementers type im
                   else snd (last (unionsWithMember type um)))
       \<and> ts_renderIsTypeOfFunctionInterface cm type mm im um ctx
           = Some (if interfacesOf type = [] \<and> unionsWithMember type um = [] then []
                   else ''    __isTypeOf?: GraphQLIsTypeOfFn<''
                     @ join '' | ''
                         (map (\<lambda>t. getModelName t mm (defaultEmptyType cm))
                            (if unionsWithMember type um = [] then interfaceImplementers type im
                             else snd (last (unionsWithMember type um))))
                     @ '', '' @ getContextName cm ctx @ ''>;'')
       \<and> (\<forall>interfaceName out binding.
             ts_renderResolverTypeInterface cm type mm im um ctx interfaceName = Some out
             \<and> ts_renderIsTypeOfFunctionInterface cm type mm im um ctx = Some binding
             \<longrightarrow> suffix (''      '' @ binding @ nl @ ''  }'' @ nl @ ''  '') out)"
proof -
  let ?possible = "if unionsWithMember type um = [] then interfaceImplementers type im
                   else snd (last (unionsWithMember type um))"
  from assms have found: "\<forall>i \<in> set (interfacesOf type). map_of im i \<noteq> None" by auto
  have p: "ts_possibleTypes type im um = Some ?possible"
    by (rule ts_possibleTypes_eq [OF found])
  have e: "(?possible = []) \<longleftrightarrow> (interfacesOf type = [] \<and> unionsWithMember type um = [])"
    by (rule possible_nonempty_iff [OF assms])
  have b: "ts_renderIsTypeOfFunctionInterface cm type mm im um ctx
           = Some (if interfacesOf type = [] \<and> unionsWithMember type um = [] then []
                   else ''    __isTypeOf?: GraphQLIsTypeOfFn<''
                     @ join '' | '' (map (\<lambda>t. getModelName t mm (defaultEmptyType cm)) ?possible)
                     @ '', '' @ getContextName cm ctx @ ''>;'')"
  proof (cases "?possible = []")
    case True
    with e have "interfacesOf type = [] \<and> unionsWithMember type um = []" by blast
    with True show ?thesis
      by (simp add: ts_renderIsTypeOfFunctionInterface_def p)
  next
    case False
    with e have "\<not> (interfacesOf type = [] \<and> unionsWithMember type um = [])" by blast
    with False show ?thesis
      by (simp only: ts_renderIsTypeOfFunctionInterface_def p) auto
  qed
  have s: "\<forall>interfaceName out binding.
             ts_renderResolverTypeInterface cm type mm im um ctx interfaceName = Some out
             \<and> ts_renderIsTypeOfFunctionInterface cm type mm im um ctx = Some binding
             \<longrightarrow> suffix (''      '' @ binding @ nl @ ''  }'' @ nl @ ''  '') out"
    using ts_renderResolverTypeInterface_ends by blast
  from p b s show ?thesis by (intro conjI)
qed

theorem isTypeOf_binding_iff_interface_or_union_witness:
  "list_all (\<lambda>i. case map_of (build_interfacesMap [exNode]) i of
                    None \<Rightarrow> False | Some ms \<Rightarrow> ms \<noteq> [])
     (interfacesOf exPost)
   \<and> interfacesOf exPost = [''Node'']
   \<and> map t_name (interfaceImplementers exPost (build_interfacesMap [exNode]))
       = [''Post'', ''Comment'']
   \<and> map fst (unionsWithMember exPost exUnionsMap) = [''SearchResult'', ''FeedItem'']
   \<and> map (map t_name) (map snd (unionsWithMember exPost exUnionsMap))
       = [ [''Post'', ''User''], [''Comment'', ''Post''] ]
   \<and> ts_renderIsTypeOfFunctionInterface exampleCommon exPost exModelMap
         (build_interfacesMap [exNode]) exUnionsMap None
       = Some ''    __isTypeOf?: GraphQLIsTypeOfFn<CommentModel | PostModel, Context>;''
   \<and> (\<exists>out.
         ts_renderResolverTypeInterface exampleCommon exPost exModelMap
           (build_interfacesMap [exNode]) exUnionsMap None ''Type'' = Some out
       \<and> suffix (''      ''
                   @ ''    __isTypeOf?: GraphQLIsTypeOfFn<CommentModel | PostModel, Context>;''
                   @ nl @ ''  }'' @ nl @ ''  '') out)
   \<and> interfacesOf exQuery = [] \<and> unionsWithMember exQuery exUnionsMap = []
   \<and> ts_renderIsTypeOfFunctionInterface exampleCommon exQuery exModelMap
         (build_interfacesMap [exNode]) exUnionsMap None
       = Some []"
proof -
  let ?im = "build_interfacesMap [exNode]"
  have i: "interfacesOf exPost = [''Node'']"
    by (simp add: interfacesOf_def exPost_def)
  have n: "map_of ?im ''Node'' = Some (i_types exNode)"
    by (simp add: build_interfacesMap_def exNode_def)
  have h: "\<forall>i \<in> set (interfacesOf exPost). \<exists>ms. map_of ?im i = Some ms \<and> ms \<noteq> []"
    by (simp add: i n) (simp add: exNode_def)
  have l: "list_all (\<lambda>i. case map_of ?im i of None \<Rightarrow> False | Some ms \<Rightarrow> ms \<noteq> [])
     (interfacesOf exPost)"
    by (simp add: i n) (simp add: exNode_def)
  have impl: "map t_name (interfaceImplementers exPost ?im) = [''Post'', ''Comment'']"
    by (simp add: interfaceImplementers_def i n) (simp add: exNode_def namedType_def)
  have um: "exUnionsMap = [(''SearchResult'', u_types exSearchResult),
                           (''FeedItem'', u_types exFeedItem)]"
    by (simp add: exUnionsMap_def build_unionsMap_def exSearchResult_def exFeedItem_def)
  have u: "unionsWithMember exPost exUnionsMap
      = [(''SearchResult'', u_types exSearchResult), (''FeedItem'', u_types exFeedItem)]"
    by (simp add: um unionsWithMember_def)
      (simp add: exPost_def exSearchResult_def exFeedItem_def namedType_def)
  have u1: "map fst (unionsWithMember exPost exUnionsMap) = [''SearchResult'', ''FeedItem'']"
    by (simp add: u)
  have u2: "map (map t_name) (map snd (unionsWithMember exPost exUnionsMap))
       = [ [''Post'', ''User''], [''Comment'', ''Post''] ]"
    by (simp add: u) (simp add: exSearchResult_def exFeedItem_def namedType_def)
  note main = isTypeOf_binding_iff_interface_or_union
    [OF h, where um = exUnionsMap and cm = exampleCommon and mm = exModelMap and ctx = None]
  have b: "ts_renderIsTypeOfFunctionInterface exampleCommon exPost exModelMap ?im exUnionsMap None
       = Some ''    __isTypeOf?: GraphQLIsTypeOfFn<CommentModel | PostModel, Context>;''"
    using main [THEN conjunct2, THEN conjunct1]
    by (simp add: u i)
      (simp add: exFeedItem_def namedType_def getModelName_def exModelMap_def exModel_def
         exampleCommon_def)
  have "ts_renderResolverTypeInterface exampleCommon exPost exModelMap ?im exUnionsMap None
          ''Type'' \<noteq> None"
    by code_simp
  then obtain out where out:
    "ts_renderResolverTypeInterface exampleCommon exPost exModelMap ?im exUnionsMap None ''Type''
       = Some out"
    by blast
  from main [THEN conjunct2, THEN conjunct2, rule_format, of "''Type''" out, OF conjI [OF out b]]
  have s: "suffix (''      ''
                   @ ''    __isTypeOf?: GraphQLIsTypeOfFn<CommentModel | PostModel, Context>;''
                   @ nl @ ''  }'' @ nl @ ''  '') out" .
  have qi: "interfacesOf exQuery = []"
    by (simp add: interfacesOf_def exQuery_def)
  have qu: "unionsWithMember exQuery exUnionsMap = []"
    by (simp add: um unionsWithMember_def)
      (simp add: exQuery_def exSearchResult_def exFeedItem_def namedType_def)
  have qh: "\<forall>i \<in> set (interfacesOf exQuery). \<exists>ms. map_of ?im i = Some ms \<and> ms \<noteq> []"
    by (simp add: qi)
  have q: "ts_renderIsTypeOfFunctionInterface exampleCommon exQuery exModelMap ?im exUnionsMap None
       = Some []"
    using isTypeOf_binding_iff_interface_or_union
      [OF qh, where um = exUnionsMap and cm = exampleCommon and mm = exModelMap and ctx = None,
        THEN conjunct2, THEN conjunct1]
    by (simp add: qi qu)
  from l i impl u1 u2 b out s qi qu q show ?thesis
    by (intro conjI exI [of _ out])
qed

section \<open>Formatting failures\<close>

text \<open>
  Claim C8. When the external formatter throws on the generated text, \<open>format\<close> (in both
  dialects) returns the text it was given, unchanged, writes one diagnostic message that
  carries the error, and does not throw itself: the failure is not propagated.
\<close>

theorem format_returns_code_when_prettier_throws:
  "(prettier_format code (AList.update ''parser'' ''typescript'' options) = Inl e \<longrightarrow>
      ts_format prettier_format JSON_stringify code options =
        (code,
         [''There is a syntax error in generated code, unformatted code printed, error: ''
            @ JSON_stringify e]))
   \<and> (prettier_format code (AList.update ''parser'' ''flow'' options) = Inl e \<longrightarrow>
      flow_format prettier_format JSON_stringify code options =
        (code,
         [''There is a syntax error in generated code, unformatted code printed, error: ''
            @ JSON_stringify e]))"
  by (simp add: ts_format_def flow_format_def)

theorem format_returns_code_when_prettier_throws_witness:
  "ts_format (\<lambda>code options. Inl ''SyntaxError'') (\<lambda>e. e) ''type A = {'' [(''semi'', ''false'')] =
     (''type A = {'',
      [''There is a syntax error in generated code, unformatted code printed, error: SyntaxError''])
   \<and> flow_format (\<lambda>code options. Inl ''SyntaxError'') (\<lambda>e. e) ''type A = {'' [(''semi'', ''false'')] =
     (''type A = {'',
      [''There is a syntax error in generated code, unformatted code printed, error: SyntaxError''])"
  using format_returns_code_when_prettier_throws
    [of "\<lambda>code options. Inl ''SyntaxError''" "''type A = {''" "[(''semi'', ''false'')]"
        "''SyntaxError''" "\<lambda>e. e"]
  by simp

end
